theory Spec2Isabelle
  imports Complex_Main "HOL-Library.Word"
begin

section \<open>Errors\<close>

text \<open>
  Every way an operation of the library can end other than by returning: a failed
  \<^verbatim>\<open>TA_USER_ASSERT\<close> (with its message), a failed \<^verbatim>\<open>TA_ASSERT\<close> or plain
  \<^verbatim>\<open>assert\<close>, a \<^verbatim>\<open>TA_EXCEPTION\<close> (with its message), and the two steps that
  C++ leaves undefined where they can be reached: the dereference of an empty
  \<^verbatim>\<open>std::shared_ptr\<close> and an integer division by zero.
\<close>

datatype error =
    UserError string
  | AssertionFailure
  | Exception string
  | NullDereference
  | DivisionByZero

text \<open>
  Modelled from the spec: \<^verbatim>\<open>TA_ASSERT\<close> and \<^verbatim>\<open>TA_USER_ASSERT\<close> (error.h is not part
  of the sources at hand). A failed assertion is fatal; the user variant carries its
  message.
\<close>

definition TA_ASSERT :: "bool \<Rightarrow> error + unit" where
  "TA_ASSERT c = (if c then Inr () else Inl AssertionFailure)"

definition TA_USER_ASSERT :: "bool \<Rightarrow> string \<Rightarrow> error + unit" where
  "TA_USER_ASSERT c msg = (if c then Inr () else Inl (UserError msg))"

section \<open>Process maps (pmap/replicated\_pmap.h)\<close>

record World =
  world_rank :: nat
  world_size :: nat

text \<open>
  Modelled from the spec: the classes of process maps other than \<^verbatim>\<open>ReplicatedPmap\<close>
  (pmap/pmap.h and the blocked and cyclic maps are not part of the sources at hand). A
  map of another class is given by its owner function; it reports a tile as local when
  its owner is this rank, and it is not replicated. \<^verbatim>\<open>ReplicatedPmap\<close> is the class
  of replicated\_pmap.h.
\<close>

datatype pmap_class = ReplicatedPmap | OwnerPmap "nat \<Rightarrow> nat"

text \<open>The members \<^verbatim>\<open>rank_\<close>, \<^verbatim>\<open>procs_\<close>, \<^verbatim>\<open>size_\<close> and \<^verbatim>\<open>local_\<close> of the base class.\<close>

record Pmap =
  pmap_rank :: nat
  pmap_procs :: nat
  pmap_size :: nat
  pmap_local :: "nat list"
  pmap_class :: pmap_class

text \<open>The base constructor \<^verbatim>\<open>Pmap(world, size)\<close>: no local tiles yet.\<close>

definition Pmap_ctor :: "World \<Rightarrow> nat \<Rightarrow> pmap_class \<Rightarrow> Pmap" where
  "Pmap_ctor world n c =
     \<lparr> pmap_rank = world_rank world, pmap_procs = world_size world, pmap_size = n, pmap_local = [],
       pmap_class = c \<rparr>"

text \<open>\<^verbatim>\<open>ReplicatedPmap::owner\<close>: asserts the tile is in range, returns this rank.\<close>

definition ReplicatedPmap_owner :: "Pmap \<Rightarrow> nat \<Rightarrow> error + nat" where
  "ReplicatedPmap_owner p tile =
     (case TA_ASSERT (tile < pmap_size p) of
        Inl e \<Rightarrow> Inl e
      | Inr _ \<Rightarrow> Inr (pmap_rank p))"

text \<open>\<^verbatim>\<open>ReplicatedPmap::is_local\<close>: asserts the tile is in range, returns true.\<close>

definition ReplicatedPmap_is_local :: "Pmap \<Rightarrow> nat \<Rightarrow> error + bool" where
  "ReplicatedPmap_is_local p tile =
     (case TA_ASSERT (tile < pmap_size p) of
        Inl e \<Rightarrow> Inl e
      | Inr _ \<Rightarrow> Inr True)"

text \<open>
  The loop of the \<^verbatim>\<open>ReplicatedPmap\<close> constructor, from index \<open>i\<close> on: each tile is
  asserted to be owned by this rank and appended to the local list.
\<close>

function ReplicatedPmap_fill :: "Pmap \<Rightarrow> nat \<Rightarrow> error + Pmap" where
  "ReplicatedPmap_fill p i =
     (if i < pmap_size p then
        (case ReplicatedPmap_owner p i of
           Inl e \<Rightarrow> Inl e
         | Inr r \<Rightarrow>
             (case TA_ASSERT (r = pmap_rank p) of
                Inl e \<Rightarrow> Inl e
              | Inr _ \<Rightarrow> ReplicatedPmap_fill (p\<lparr>pmap_local := pmap_local p @ [i]\<rparr>) (Suc i)))
      else Inr p)"
  by pat_completeness auto
termination
  by (relation "measure (\<lambda>(p, i). pmap_size p - i)") auto

declare ReplicatedPmap_fill.simps [simp del]

definition ReplicatedPmap_ctor :: "World \<Rightarrow> nat \<Rightarrow> error + Pmap" where
  "ReplicatedPmap_ctor world n = ReplicatedPmap_fill (Pmap_ctor world n ReplicatedPmap) 0"

text \<open>Virtual dispatch on the class of the map.\<close>

definition Pmap_owner :: "Pmap \<Rightarrow> nat \<Rightarrow> error + nat" where
  "Pmap_owner p tile =
     (case pmap_class p of
        ReplicatedPmap \<Rightarrow> ReplicatedPmap_owner p tile
      | OwnerPmap f \<Rightarrow>
          (case TA_ASSERT (tile < pmap_size p) of
             Inl e \<Rightarrow> Inl e
           | Inr _ \<Rightarrow> Inr (f tile)))"

definition Pmap_is_local :: "Pmap \<Rightarrow> nat \<Rightarrow> error + bool" where
  "Pmap_is_local p tile =
     (case pmap_class p of
        ReplicatedPmap \<Rightarrow> ReplicatedPmap_is_local p tile
      | OwnerPmap f \<Rightarrow>
          (case TA_ASSERT (tile < pmap_size p) of
             Inl e \<Rightarrow> Inl e
           | Inr _ \<Rightarrow> Inr (f tile = pmap_rank p)))"

definition Pmap_is_replicated :: "Pmap \<Rightarrow> bool" where
  "Pmap_is_replicated p = (case pmap_class p of ReplicatedPmap \<Rightarrow> True | OwnerPmap f \<Rightarrow> False)"

section \<open>Distributed arrays (dist\_array.h)\<close>

text \<open>Sequencing of fallible steps: the first error ends the computation.\<close>

definition bind_result :: "error + 'a \<Rightarrow> ('a \<Rightarrow> error + 'b) \<Rightarrow> error + 'b" where
  "bind_result r f = (case r of Inl e \<Rightarrow> Inl e | Inr x \<Rightarrow> f x)"

text \<open>
  Modelled from the spec: ranges, tiled ranges and shapes (range.h, tiled\_range.h and the
  shape classes are not part of the sources at hand), as far as \<^verbatim>\<open>DistArray\<close> uses them.
  A tile range is the list of its extents; its ordinals are \<open>0, \<dots>, volume - 1\<close>. A
  shape may be empty (not initialised); it validates a tile range when it is dense or its
  own range is that range; a dense shape has no zero tile.
\<close>

type_synonym Range = "nat list"

definition Range_rank :: "Range \<Rightarrow> nat" where
  "Range_rank r = length r"

definition Range_volume :: "Range \<Rightarrow> nat" where
  "Range_volume r = prod_list r"

definition Range_includes :: "Range \<Rightarrow> nat \<Rightarrow> bool" where
  "Range_includes r i = (i < Range_volume r)"

record TiledRange =
  tiles_range :: Range
  elements_range :: Range

record shape_type =
  shape_empty :: bool
  shape_dense :: bool
  shape_range :: Range
  shape_zero :: "nat \<Rightarrow> bool"

definition shape_validate :: "shape_type \<Rightarrow> Range \<Rightarrow> bool" where
  "shape_validate s r = (shape_dense s \<or> shape_range s = r)"

definition shape_is_zero :: "shape_type \<Rightarrow> nat \<Rightarrow> bool" where
  "shape_is_zero s i = (\<not> shape_dense s \<and> shape_zero s i)"

text \<open>
  Modelled from the spec: the implementation object \<^verbatim>\<open>ArrayImpl\<close> (array\_impl.h is
  not part of the sources at hand): world, tiled range, shape, process map, the
  globally unique id, and the tiles this rank holds (a tile index without an entry is
  a future that is not set yet).
\<close>

record 't ArrayImpl =
  impl_world :: World
  impl_trange :: TiledRange
  impl_shape :: shape_type
  impl_pmap :: Pmap
  impl_id :: nat
  impl_tiles :: "nat \<Rightarrow> 't option"

definition ArrayImpl_range :: "'t ArrayImpl \<Rightarrow> Range" where
  "ArrayImpl_range impl = tiles_range (impl_trange impl)"

definition ArrayImpl_size :: "'t ArrayImpl \<Rightarrow> nat" where
  "ArrayImpl_size impl = Range_volume (tiles_range (impl_trange impl))"

definition ArrayImpl_is_dense :: "'t ArrayImpl \<Rightarrow> bool" where
  "ArrayImpl_is_dense impl = shape_dense (impl_shape impl)"

definition ArrayImpl_owner :: "'t ArrayImpl \<Rightarrow> nat \<Rightarrow> error + nat" where
  "ArrayImpl_owner impl i = Pmap_owner (impl_pmap impl) i"

definition ArrayImpl_is_local :: "'t ArrayImpl \<Rightarrow> nat \<Rightarrow> error + bool" where
  "ArrayImpl_is_local impl i = Pmap_is_local (impl_pmap impl) i"

definition ArrayImpl_is_zero :: "'t ArrayImpl \<Rightarrow> nat \<Rightarrow> bool" where
  "ArrayImpl_is_zero impl i = shape_is_zero (impl_shape impl) i"

definition ArrayImpl_get :: "'t ArrayImpl \<Rightarrow> nat \<Rightarrow> 't option" where
  "ArrayImpl_get impl i = impl_tiles impl i"

text \<open>
  Modelled from the spec: \<^verbatim>\<open>ArrayImpl::set\<close> asserts ownership, and a tile is set at
  most once.
\<close>

definition ArrayImpl_set :: "'t ArrayImpl \<Rightarrow> nat \<Rightarrow> 't \<Rightarrow> error + 't ArrayImpl" where
  "ArrayImpl_set impl i v =
     bind_result (ArrayImpl_is_local impl i) (\<lambda>loc.
     bind_result (TA_ASSERT loc) (\<lambda>_.
       (case impl_tiles impl i of
          Some _ \<Rightarrow> Inl (Exception ''Future already set'')
        | None \<Rightarrow> Inr (impl\<lparr>impl_tiles := (impl_tiles impl)(i := Some v)\<rparr>))))"

text \<open>
  The array handle: the shared pointer \<^verbatim>\<open>pimpl_\<close>, empty after default construction.
\<close>

record 't DistArray =
  pimpl :: "'t ArrayImpl option"

text \<open>What \<^verbatim>\<open>pimpl_->\<close> does: an empty pointer has nothing to give.\<close>

definition deref :: "'t DistArray \<Rightarrow> error + 't ArrayImpl" where
  "deref a = (case pimpl a of None \<Rightarrow> Inl NullDereference | Some impl \<Rightarrow> Inr impl)"

definition check_pimpl :: "'t DistArray \<Rightarrow> error + unit" where
  "check_pimpl a =
     TA_USER_ASSERT (pimpl a \<noteq> None)
       ''The Array has not been initialized, likely reason: it was default constructed and used.''"

text \<open>\<^verbatim>\<open>check_index\<close> for an ordinal index.\<close>

definition check_index :: "'t DistArray \<Rightarrow> nat \<Rightarrow> error + unit" where
  "check_index a i =
     bind_result (check_pimpl a) (\<lambda>_.
     bind_result (deref a) (\<lambda>impl.
       TA_USER_ASSERT (Range_includes (ArrayImpl_range impl) i)
         ''The ordinal index used to access an array tile is out of range.''))"

subsection \<open>Construction, copy, assignment, swap\<close>

definition DistArray_default :: "'t DistArray" where
  "DistArray_default = \<lparr> pimpl = None \<rparr>"

definition DistArray_copy :: "'t DistArray \<Rightarrow> 't DistArray" where
  "DistArray_copy other = \<lparr> pimpl = pimpl other \<rparr>"

text \<open>\<^verbatim>\<open>operator=\<close>: the handle takes the pointer of \<open>other\<close>.\<close>

definition DistArray_assign :: "'t DistArray \<Rightarrow> 't DistArray \<Rightarrow> 't DistArray" where
  "DistArray_assign a other = a\<lparr>pimpl := pimpl other\<rparr>"

definition DistArray_swap :: "'t DistArray \<Rightarrow> 't DistArray \<Rightarrow> 't DistArray \<times> 't DistArray" where
  "DistArray_swap a other = (a\<lparr>pimpl := pimpl other\<rparr>, other\<lparr>pimpl := pimpl a\<rparr>)"

text \<open>
  \<^verbatim>\<open>init\<close>: the validation of the meta data, then the new implementation object. The
  default process map of the policy and the id the runtime hands out are parameters;
  a new array holds no tile.
\<close>

definition init ::
  "(World \<Rightarrow> nat \<Rightarrow> Pmap) \<Rightarrow> nat \<Rightarrow> World \<Rightarrow> TiledRange \<Rightarrow> shape_type \<Rightarrow> Pmap option
     \<Rightarrow> error + 't ArrayImpl" where
  "init default_pmap uid world trange shape pmap_opt =
     bind_result
       (case pmap_opt of
          None \<Rightarrow> Inr (default_pmap world (Range_volume (tiles_range trange)))
        | Some pmap \<Rightarrow>
            bind_result (TA_USER_ASSERT (pmap_size pmap = Range_volume (tiles_range trange))
              ''Array::Array() -- The size of the process map is not equal to the number of tiles in the TiledRange object.'') (\<lambda>_.
            bind_result (TA_USER_ASSERT (pmap_rank pmap = world_rank world)
              ''Array::Array() -- The rank of the process map is not equal to that of the world object.'') (\<lambda>_.
            bind_result (TA_USER_ASSERT (pmap_procs pmap = world_size world)
              ''Array::Array() -- The number of processes in the process map is not equal to that of the world object.'') (\<lambda>_.
            Inr pmap))))
       (\<lambda>pmap.
     bind_result (TA_USER_ASSERT (\<not> shape_empty shape)
       ''Array::Array() -- The shape is not initialized.'') (\<lambda>_.
     bind_result (TA_USER_ASSERT (shape_validate shape (tiles_range trange))
       ''Array::Array() -- The range of the shape is not equal to the tiles range.'') (\<lambda>_.
     Inr \<lparr> impl_world = world, impl_trange = trange, impl_shape = shape, impl_pmap = pmap,
           impl_id = uid, impl_tiles = (\<lambda>i. None) \<rparr>)))"

text \<open>The sparse array constructor \<^verbatim>\<open>DistArray(world, trange, shape, pmap)\<close>.\<close>

definition DistArray_ctor ::
  "(World \<Rightarrow> nat \<Rightarrow> Pmap) \<Rightarrow> nat \<Rightarrow> World \<Rightarrow> TiledRange \<Rightarrow> shape_type \<Rightarrow> Pmap option
     \<Rightarrow> error + 't DistArray" where
  "DistArray_ctor default_pmap uid world trange shape pmap_opt =
     bind_result (init default_pmap uid world trange shape pmap_opt) (\<lambda>impl.
       Inr \<lparr> pimpl = Some impl \<rparr>)"

subsection \<open>Accessors\<close>

text \<open>\<^verbatim>\<open>id()\<close>, \<^verbatim>\<open>shape()\<close> and \<^verbatim>\<open>get_shape()\<close> go through the pointer at once.\<close>

definition DistArray_id :: "'t DistArray \<Rightarrow> error + nat" where
  "DistArray_id a = bind_result (deref a) (\<lambda>impl. Inr (impl_id impl))"

definition DistArray_shape :: "'t DistArray \<Rightarrow> error + shape_type" where
  "DistArray_shape a = bind_result (deref a) (\<lambda>impl. Inr (impl_shape impl))"

definition DistArray_get_shape :: "'t DistArray \<Rightarrow> error + shape_type" where
  "DistArray_get_shape a = bind_result (deref a) (\<lambda>impl. Inr (impl_shape impl))"

text \<open>
  The local tile iterators: a position in the local list of the process map.
\<close>

definition DistArray_begin :: "'t DistArray \<Rightarrow> error + nat" where
  "DistArray_begin a =
     bind_result (check_pimpl a) (\<lambda>_.
     bind_result (deref a) (\<lambda>impl. Inr 0))"

definition DistArray_end :: "'t DistArray \<Rightarrow> error + nat" where
  "DistArray_end a =
     bind_result (check_pimpl a) (\<lambda>_.
     bind_result (deref a) (\<lambda>impl. Inr (length (pmap_local (impl_pmap impl)))))"

definition DistArray_find :: "'t DistArray \<Rightarrow> nat \<Rightarrow> error + 't option" where
  "DistArray_find a i =
     bind_result (check_index a i) (\<lambda>_.
     bind_result (deref a) (\<lambda>impl. Inr (ArrayImpl_get impl i)))"

text \<open>\<^verbatim>\<open>set(i, v)\<close> for a tile or a future of a tile.\<close>

definition DistArray_set :: "'t DistArray \<Rightarrow> nat \<Rightarrow> 't \<Rightarrow> error + 't DistArray" where
  "DistArray_set a i v =
     bind_result (check_index a i) (\<lambda>_.
     bind_result (deref a) (\<lambda>impl.
     bind_result (ArrayImpl_set impl i v) (\<lambda>impl'.
       Inr (a\<lparr>pimpl := Some impl'\<rparr>))))"

definition DistArray_trange :: "'t DistArray \<Rightarrow> error + TiledRange" where
  "DistArray_trange a =
     bind_result (check_pimpl a) (\<lambda>_.
     bind_result (deref a) (\<lambda>impl. Inr (impl_trange impl)))"

definition DistArray_range :: "'t DistArray \<Rightarrow> error + Range" where
  "DistArray_range a =
     bind_result (check_pimpl a) (\<lambda>_.
     bind_result (deref a) (\<lambda>impl. Inr (ArrayImpl_range impl)))"

definition DistArray_elements_range :: "'t DistArray \<Rightarrow> error + Range" where
  "DistArray_elements_range a =
     bind_result (check_pimpl a) (\<lambda>_.
     bind_result (deref a) (\<lambda>impl. Inr (elements_range (impl_trange impl))))"

definition DistArray_elements :: "'t DistArray \<Rightarrow> error + Range" where
  "DistArray_elements a = DistArray_elements_range a"

definition DistArray_size :: "'t DistArray \<Rightarrow> error + nat" where
  "DistArray_size a =
     bind_result (check_pimpl a) (\<lambda>_.
     bind_result (deref a) (\<lambda>impl. Inr (ArrayImpl_size impl)))"

definition DistArray_world :: "'t DistArray \<Rightarrow> error + World" where
  "DistArray_world a =
     bind_result (check_pimpl a) (\<lambda>_.
     bind_result (deref a) (\<lambda>impl. Inr (impl_world impl)))"

definition DistArray_get_world :: "'t DistArray \<Rightarrow> error + World" where
  "DistArray_get_world a =
     bind_result (check_pimpl a) (\<lambda>_.
     bind_result (deref a) (\<lambda>impl. Inr (impl_world impl)))"

definition DistArray_pmap :: "'t DistArray \<Rightarrow> error + Pmap" where
  "DistArray_pmap a =
     bind_result (check_pimpl a) (\<lambda>_.
     bind_result (deref a) (\<lambda>impl. Inr (impl_pmap impl)))"

definition DistArray_get_pmap :: "'t DistArray \<Rightarrow> error + Pmap" where
  "DistArray_get_pmap a =
     bind_result (check_pimpl a) (\<lambda>_.
     bind_result (deref a) (\<lambda>impl. Inr (impl_pmap impl)))"

definition DistArray_is_dense :: "'t DistArray \<Rightarrow> error + bool" where
  "DistArray_is_dense a =
     bind_result (check_pimpl a) (\<lambda>_.
     bind_result (deref a) (\<lambda>impl. Inr (ArrayImpl_is_dense impl)))"

definition DistArray_owner :: "'t DistArray \<Rightarrow> nat \<Rightarrow> error + nat" where
  "DistArray_owner a i =
     bind_result (check_index a i) (\<lambda>_.
     bind_result (deref a) (\<lambda>impl. ArrayImpl_owner impl i))"

definition DistArray_is_local :: "'t DistArray \<Rightarrow> nat \<Rightarrow> error + bool" where
  "DistArray_is_local a i =
     bind_result (check_index a i) (\<lambda>_.
     bind_result (deref a) (\<lambda>impl. ArrayImpl_is_local impl i))"

definition DistArray_is_zero :: "'t DistArray \<Rightarrow> nat \<Rightarrow> error + bool" where
  "DistArray_is_zero a i =
     bind_result (check_index a i) (\<lambda>_.
     bind_result (deref a) (\<lambda>impl. Inr (ArrayImpl_is_zero impl i)))"

definition DistArray_is_initialized :: "'t DistArray \<Rightarrow> bool" where
  "DistArray_is_initialized a = (pimpl a \<noteq> None)"

subsection \<open>Tile initialisation\<close>

text \<open>
  The loop of \<^verbatim>\<open>init_tiles\<close> over the local tiles of the process map. The functor
  \<open>op\<close> is given the tile index (the source hands it the tile range made from that
  index); the task that makes the tile has run when the tile is stored.
\<close>

fun init_tiles_loop ::
  "(nat \<Rightarrow> 't) \<Rightarrow> bool \<Rightarrow> nat list \<Rightarrow> 't DistArray \<Rightarrow> error + 't DistArray" where
  "init_tiles_loop op skip_set [] a = Inr a"
| "init_tiles_loop op skip_set (index # rest) a =
     (case deref a of
        Inl e \<Rightarrow> Inl e
      | Inr impl \<Rightarrow>
          if \<not> ArrayImpl_is_zero impl index then
            (case (if skip_set
                   then bind_result (DistArray_find a index) (\<lambda>fut. Inr (fut \<noteq> None))
                   else Inr False) of
               Inl e \<Rightarrow> Inl e
             | Inr True \<Rightarrow> init_tiles_loop op skip_set rest a
             | Inr False \<Rightarrow>
                 (case DistArray_set a index (op index) of
                    Inl e \<Rightarrow> Inl e
                  | Inr a' \<Rightarrow> init_tiles_loop op skip_set rest a'))
          else init_tiles_loop op skip_set rest a)"

definition init_tiles :: "'t DistArray \<Rightarrow> (nat \<Rightarrow> 't) \<Rightarrow> bool \<Rightarrow> error + 't DistArray" where
  "init_tiles a op skip_set =
     bind_result (check_pimpl a) (\<lambda>_.
     bind_result (deref a) (\<lambda>impl.
       init_tiles_loop op skip_set (pmap_local (impl_pmap impl)) a))"

text \<open>
  \<^verbatim>\<open>fill_local\<close> and \<^verbatim>\<open>fill\<close>: every tile is made from its range and the fill
  value by \<open>value_type\<close>, the tile constructor.
\<close>

definition fill_local :: "(nat \<Rightarrow> 'v \<Rightarrow> 't) \<Rightarrow> 't DistArray \<Rightarrow> 'v \<Rightarrow> bool \<Rightarrow> error + 't DistArray" where
  "fill_local value_type a v skip_set = init_tiles a (\<lambda>index. value_type index v) skip_set"

definition fill :: "(nat \<Rightarrow> 'v \<Rightarrow> 't) \<Rightarrow> 't DistArray \<Rightarrow> 'v \<Rightarrow> bool \<Rightarrow> error + 't DistArray" where
  "fill value_type a v skip_set = fill_local value_type a v skip_set"

subsection \<open>Tensor expressions\<close>

record 't TsrExpr =
  expr_array :: "'t DistArray"
  expr_vars :: string

text \<open>What the library writes to the error stream.\<close>

datatype exception_kind = MadnessException | StdException | UnknownException

datatype message =
    AnnotationMismatch nat nat
  | Absorbed exception_kind "string option" nat

text \<open>
  \<^verbatim>\<open>operator()(const std::string&)\<close>. The count \<open>n\<close> is an \<^verbatim>\<open>unsigned int\<close>: one
  plus the number of commas, cut to 32 bits. The check is compiled only without
  \<^verbatim>\<open>NDEBUG\<close>; the message is written on rank 0 of the default world, the exception
  is thrown on every rank. The result is what is written and how the call ends.
\<close>

definition count_commas :: "string \<Rightarrow> nat" where
  "count_commas vars = length (filter (\<lambda>c. c = CHR '','') vars)"

definition DistArray_call ::
  "bool \<Rightarrow> World \<Rightarrow> 't DistArray \<Rightarrow> string \<Rightarrow> message list \<times> (error + 't TsrExpr)" where
  "DistArray_call ndebug default_world a vars =
     (if \<not> ndebug then
        (let n = (1 + word_of_nat (count_commas vars) :: 32 word) in
         (case pimpl a of
            None \<Rightarrow> ([], Inr \<lparr> expr_array = a, expr_vars = vars \<rparr>)
          | Some impl \<Rightarrow>
              if unat n \<noteq> Range_rank (tiles_range (impl_trange impl)) then
                ((if world_rank default_world = 0
                  then [AnnotationMismatch (unat n) (Range_rank (tiles_range (impl_trange impl)))]
                  else []),
                 Inl (Exception
                   ''The number of array annotation variables is not equal to the array dimension.''))
              else ([], Inr \<lparr> expr_array = a, expr_vars = vars \<rparr>)))
      else ([], Inr \<lparr> expr_array = a, expr_vars = vars \<rparr>))"

subsection \<open>Replication\<close>

text \<open>
  \<^verbatim>\<open>make_replicated\<close>. The new array is built by the sparse constructor over a new
  \<^verbatim>\<open>ReplicatedPmap\<close>; \<open>uid\<close> is the id the runtime gives the new implementation.
  Modelled from the spec: the \<^verbatim>\<open>Replicator\<close> (replicator.h is not part of the sources
  at hand) copies the tiles of this array into the result and broadcasts them; on this
  rank the result holds the tiles this rank held, those of the other ranks arrive with
  the broadcast. The pointer to the replicator is the only one when it is asserted to
  be.
\<close>

definition make_replicated ::
  "(World \<Rightarrow> nat \<Rightarrow> Pmap) \<Rightarrow> nat \<Rightarrow> 't DistArray \<Rightarrow> error + 't DistArray" where
  "make_replicated default_pmap uid a =
     bind_result (check_pimpl a) (\<lambda>_.
     bind_result (deref a) (\<lambda>impl.
     bind_result (DistArray_world a) (\<lambda>world.
       if \<not> Pmap_is_replicated (impl_pmap impl) \<and> world_size world > 1 then
         bind_result (DistArray_size a) (\<lambda>n.
         bind_result (ReplicatedPmap_ctor world n) (\<lambda>pmap.
         bind_result (DistArray_trange a) (\<lambda>trange.
         bind_result (DistArray_shape a) (\<lambda>shape.
         bind_result (DistArray_ctor default_pmap uid world trange shape (Some pmap)) (\<lambda>result.
         bind_result (deref result) (\<lambda>rimpl.
           Inr (DistArray_assign a
                  \<lparr> pimpl = Some (rimpl\<lparr>impl_tiles := impl_tiles impl\<rparr>) \<rparr>)))))))
       else Inr a)))"

subsection \<open>Deferred cleanup\<close>

text \<open>
  The state the deleter works on: the static counter \<^verbatim>\<open>cleanup_counter_\<close>, the
  implementation objects deleted so far, the callbacks registered with
  \<^verbatim>\<open>lazy_sync\<close> and not yet run (each with its id), and the error stream.
\<close>

record 't cleanup_state =
  cleanup_counter :: int
  deleted :: "'t ArrayImpl list"
  registered :: "(nat \<times> 't ArrayImpl) list"
  stderr :: "message list"

text \<open>
  How the call of \<^verbatim>\<open>world.gop.lazy_sync\<close> ends (the runtime is not part of the sources
  at hand): it registers the callback, or it throws a \<^verbatim>\<open>madness::MadnessException\<close>,
  another \<^verbatim>\<open>std::exception\<close> (each with its text), or anything else. A call that
  throws registers nothing.
\<close>

datatype sync_outcome =
    Registers
  | ThrowsMadness string
  | ThrowsStd string
  | ThrowsOther

text \<open>The callback handed to \<^verbatim>\<open>lazy_sync\<close>: delete, then decrement the counter.\<close>

definition cleanup_callback :: "'t ArrayImpl \<Rightarrow> 't cleanup_state \<Rightarrow> 't cleanup_state" where
  "cleanup_callback impl st =
     st\<lparr>deleted := deleted st @ [impl], cleanup_counter := cleanup_counter st - 1\<rparr>"

text \<open>
  A catch block of the deleter: the message with the text of the exception (none for
  an unknown exception) and the rank, the decrement, the deletion.
\<close>

definition absorb ::
  "exception_kind \<Rightarrow> string option \<Rightarrow> 't ArrayImpl \<Rightarrow> 't cleanup_state \<Rightarrow> 't cleanup_state" where
  "absorb kind what impl st =
     st\<lparr>stderr := stderr st @ [Absorbed kind what (world_rank (impl_world impl))],
        cleanup_counter := cleanup_counter st - 1,
        deleted := deleted st @ [impl]\<rparr>"

definition lazy_deleter ::
  "bool \<Rightarrow> sync_outcome \<Rightarrow> 't ArrayImpl option \<Rightarrow> 't cleanup_state \<Rightarrow> 't cleanup_state" where
  "lazy_deleter madness_initialized sync p st =
     (case p of
        None \<Rightarrow> st
      | Some impl \<Rightarrow>
          if madness_initialized then
            (let st1 = st\<lparr>cleanup_counter := cleanup_counter st + 1\<rparr> in
             (case sync of
                Registers \<Rightarrow> st1\<lparr>registered := registered st1 @ [(impl_id impl, impl)]\<rparr>
              | ThrowsMadness what \<Rightarrow> absorb MadnessException (Some what) impl st1
              | ThrowsStd what \<Rightarrow> absorb StdException (Some what) impl st1
              | ThrowsOther \<Rightarrow> absorb UnknownException None impl st1))
          else st\<lparr>deleted := deleted st @ [impl]\<rparr>)"

text \<open>
  The runtime runs the registered callback of an id once every rank has reached the
  synchronisation point of that id.
\<close>

fun run_registered :: "nat \<Rightarrow> 't cleanup_state \<Rightarrow> 't cleanup_state" where
  "run_registered uid st =
     (case filter (\<lambda>(k, impl). k = uid) (registered st) of
        [] \<Rightarrow> st
      | (k, impl) # _ \<Rightarrow>
          cleanup_callback impl
            (st\<lparr>registered := remove1 (k, impl) (registered st)\<rparr>))"

subsection \<open>What the constructor establishes\<close>

text \<open>
  The facts \<^verbatim>\<open>init\<close> has checked for an implementation object it built, together
  with the contract of the runtime (this rank is one of the processes of the world) and
  of a process map (every owner is one of the processes).
\<close>

definition impl_invariant :: "'t ArrayImpl \<Rightarrow> bool" where
  "impl_invariant impl =
     (world_rank (impl_world impl) < world_size (impl_world impl) \<and>
      pmap_size (impl_pmap impl) = Range_volume (tiles_range (impl_trange impl)) \<and>
      pmap_rank (impl_pmap impl) = world_rank (impl_world impl) \<and>
      pmap_procs (impl_pmap impl) = world_size (impl_world impl) \<and>
      \<not> shape_empty (impl_shape impl) \<and>
      shape_validate (impl_shape impl) (tiles_range (impl_trange impl)) \<and>
      (case pmap_class (impl_pmap impl) of
         ReplicatedPmap \<Rightarrow> True
       | OwnerPmap f \<Rightarrow> \<forall>i < pmap_size (impl_pmap impl). f i < pmap_procs (impl_pmap impl)))"


section \<open>The tile multiplication operation (tile\_op/mult.h)\<close>

text \<open>
  Modelled from the spec: a tile (tensor.h is not part of the sources at hand) is a range
  with a row-major buffer of its elements; a tile that was default constructed is empty,
  with neither range nor buffer.
\<close>

datatype 'a Tensor = EmptyTensor | Tensor Range "'a list"

text \<open>
  Modelled from the spec: the vector loops of the math layer (\<^verbatim>\<open>math::vector_op\<close> and
  \<^verbatim>\<open>math::vector_ptr_op\<close> are not part of the sources at hand), which the element
  kernels of tensor/kernels.h call. They visit the offsets \<open>0, \<dots>, n - 1\<close> in order;
  \<^verbatim>\<open>vector_op\<close> overwrites each element of the result buffer with \<open>op\<close> of it and of
  the argument element, \<^verbatim>\<open>vector_ptr_op\<close> constructs each element of a fresh buffer
  from the argument elements.
\<close>

fun vector_op :: "('a \<Rightarrow> 'b \<Rightarrow> 'a) \<Rightarrow> nat \<Rightarrow> 'a list \<Rightarrow> 'b list \<Rightarrow> 'a list" where
  "vector_op op 0 result arg = result"
| "vector_op op (Suc n) result arg =
     (let r = vector_op op n result arg in r[n := op (r ! n) (arg ! n)])"

definition vector_ptr_op :: "('a \<Rightarrow> 'b \<Rightarrow> 'c) \<Rightarrow> nat \<Rightarrow> 'a list \<Rightarrow> 'b list \<Rightarrow> 'c list" where
  "vector_ptr_op op n arg1 arg2 = map (\<lambda>i. op (arg1 ! i) (arg2 ! i)) [0..<n]"

text \<open>
  \<^verbatim>\<open>inplace_tensor_op(op, result, tensor)\<close> for contiguous tensors: the two
  assertions, then the loop over the volume of the result, in the buffer of the result.
\<close>

fun inplace_tensor_op ::
  "('a \<Rightarrow> 'b \<Rightarrow> 'a) \<Rightarrow> 'a Tensor \<Rightarrow> 'b Tensor \<Rightarrow> error + 'a Tensor" where
  "inplace_tensor_op op (Tensor rr dr) (Tensor rt dt) =
     bind_result (TA_ASSERT True) (\<lambda>_.
     bind_result (TA_ASSERT (rr = rt)) (\<lambda>_.
       Inr (Tensor rr (vector_op op (Range_volume rr) dr dt))))"
| "inplace_tensor_op op _ _ = bind_result (TA_ASSERT False) (\<lambda>_. Inr EmptyTensor)"

text \<open>
  \<^verbatim>\<open>tensor_op(op, tensor1, tensor2)\<close> returns the tensor constructed from the two
  arguments and the operation: a new buffer over the range of the first argument,
  filled by \<^verbatim>\<open>tensor_init\<close> after its two assertions.
\<close>

fun tensor_op ::
  "('a \<Rightarrow> 'b \<Rightarrow> 'c) \<Rightarrow> 'a Tensor \<Rightarrow> 'b Tensor \<Rightarrow> error + 'c Tensor" where
  "tensor_op op (Tensor r1 d1) (Tensor r2 d2) =
     bind_result (TA_ASSERT True) (\<lambda>_.
     bind_result (TA_ASSERT (r1 = r2)) (\<lambda>_.
       Inr (Tensor r1 (vector_ptr_op op (Range_volume r1) d1 d2))))"
| "tensor_op op _ _ = bind_result (TA_ASSERT False) (\<lambda>_. Inr EmptyTensor)"

text \<open>
  Modelled from the spec: \<^verbatim>\<open>mult\<close> and \<^verbatim>\<open>mult_to\<close> of the tile interface
  (tile\_op/tile\_interface.h and the members of \<^verbatim>\<open>Tensor\<close> are not part of the sources
  at hand). \<^verbatim>\<open>mult(l, r)\<close> is the out-of-place kernel with the product of two elements:
  a new tile. \<^verbatim>\<open>mult_to(l, r)\<close> is the in-place kernel with \<^verbatim>\<open>l *= r\<close>: it works
  in the buffer of \<open>l\<close> and returns \<open>l\<close>. A shape mismatch is a fatal assertion.
\<close>

definition mult :: "('a::times) Tensor \<Rightarrow> 'a Tensor \<Rightarrow> error + 'a Tensor" where
  "mult l r = tensor_op (\<lambda>x y. x * y) l r"

definition mult_to :: "('a::times) Tensor \<Rightarrow> 'a Tensor \<Rightarrow> error + 'a Tensor" where
  "mult_to l r = inplace_tensor_op (\<lambda>x y. x * y) l r"

text \<open>
  The permuting \<^verbatim>\<open>mult(l, r, perm)\<close>: the product, permuted. How a permutation acts on
  a tile (permutation.h is not part of the sources at hand) is the parameter
  \<open>permute\<close>.
\<close>

definition mult_perm ::
  "('p \<Rightarrow> 'a Tensor \<Rightarrow> 'a Tensor) \<Rightarrow> ('a::times) Tensor \<Rightarrow> 'a Tensor \<Rightarrow> 'p
     \<Rightarrow> error + 'a Tensor" where
  "mult_perm permute l r perm = bind_result (mult l r) (\<lambda>t. Inr (permute perm t))"

text \<open>
  The arguments of the operation. \<^verbatim>\<open>eval\<close> is overloaded for two tiles, for a
  \<^verbatim>\<open>ZeroTensor\<close> on the left and for a \<^verbatim>\<open>ZeroTensor\<close> on the right; there is no
  overload for two zero tiles.
\<close>

datatype 'a Mult_args =
    Tiles "'a Tensor" "'a Tensor"
  | ZeroLeft "'a Tensor"
  | ZeroRight "'a Tensor"

text \<open>
  The template parameters of \<^verbatim>\<open>Mult\<close>: the two consumability flags, and whether the
  result type is the type of the left and of the right argument.
\<close>

record Mult =
  LeftConsumable :: bool
  RightConsumable :: bool
  result_is_left_type :: bool
  result_is_right_type :: bool

definition left_is_consumable :: "Mult \<Rightarrow> bool" where
  "left_is_consumable m = (LeftConsumable m \<and> result_is_left_type m)"

definition right_is_consumable :: "Mult \<Rightarrow> bool" where
  "right_is_consumable m = (RightConsumable m \<and> result_is_right_type m)"

text \<open>The permuting \<^verbatim>\<open>eval\<close> overloads.\<close>

fun eval_perm ::
  "('p \<Rightarrow> 'a Tensor \<Rightarrow> 'a Tensor) \<Rightarrow> ('a::times) Mult_args \<Rightarrow> 'p \<Rightarrow> error + 'a Tensor" where
  "eval_perm permute (Tiles first second) perm = mult_perm permute first second perm"
| "eval_perm permute (ZeroLeft second) perm =
     bind_result (TA_ASSERT False) (\<lambda>_. Inr EmptyTensor)"
| "eval_perm permute (ZeroRight first) perm =
     bind_result (TA_ASSERT False) (\<lambda>_. Inr EmptyTensor)"

text \<open>
  The \<^verbatim>\<open>eval<LC, RC>\<close> overloads without a permutation: the compiler selects by the
  two flags and the argument types.
\<close>

fun eval :: "bool \<Rightarrow> bool \<Rightarrow> ('a::times) Mult_args \<Rightarrow> error + 'a Tensor" where
  "eval LC RC (Tiles first second) =
     (if \<not> (LC \<or> RC) then mult first second
      else if LC then mult_to first second
      else mult_to second first)"
| "eval LC RC (ZeroLeft second) =
     bind_result (TA_ASSERT False) (\<lambda>_. Inr EmptyTensor)"
| "eval LC RC (ZeroRight first) =
     bind_result (TA_ASSERT False) (\<lambda>_. Inr EmptyTensor)"

text \<open>The two call operators of \<^verbatim>\<open>Mult\<close>.\<close>

definition Mult_call_perm ::
  "('p \<Rightarrow> 'a Tensor \<Rightarrow> 'a Tensor) \<Rightarrow> Mult \<Rightarrow> ('a::times) Mult_args \<Rightarrow> 'p \<Rightarrow> error + 'a Tensor" where
  "Mult_call_perm permute m args perm = eval_perm permute args perm"

definition Mult_call :: "Mult \<Rightarrow> ('a::times) Mult_args \<Rightarrow> error + 'a Tensor" where
  "Mult_call m args = eval (left_is_consumable m) (right_is_consumable m) args"

section \<open>Tensor reduction kernels (tensor/kernels.h)\<close>

text \<open>
  The argument pack \<^verbatim>\<open>tensor1, tensors...\<close> of a kernel is the first tensor and the
  list of the others, all with elements of one type; an element operation receives the
  elements of all tensors at one offset as a list, in the order of the pack.
\<close>

definition Tensor_empty :: "'a Tensor \<Rightarrow> bool" where
  "Tensor_empty t = (case t of EmptyTensor \<Rightarrow> True | Tensor r d \<Rightarrow> False)"

definition Tensor_range :: "'a Tensor \<Rightarrow> Range" where
  "Tensor_range t = (case t of EmptyTensor \<Rightarrow> [] | Tensor r d \<Rightarrow> r)"

definition Tensor_data :: "'a Tensor \<Rightarrow> 'a list" where
  "Tensor_data t = (case t of EmptyTensor \<Rightarrow> [] | Tensor r d \<Rightarrow> d)"

text \<open>
  Modelled from the spec: \<^verbatim>\<open>empty\<close> and \<^verbatim>\<open>is_range_set_congruent\<close> (tensor/utility.h
  is not part of the sources at hand): some tensor of the pack is empty; every tensor
  of the pack has the range of the first.
\<close>

definition empty_pack :: "'a Tensor \<Rightarrow> 'a Tensor list \<Rightarrow> bool" where
  "empty_pack tensor1 tensors = (Tensor_empty tensor1 \<or> list_ex Tensor_empty tensors)"

definition is_range_set_congruent :: "'a Tensor \<Rightarrow> 'a Tensor list \<Rightarrow> bool" where
  "is_range_set_congruent tensor1 tensors =
     list_all (\<lambda>t. Tensor_range t = Tensor_range tensor1) tensors"

text \<open>
  Modelled from the spec: \<^verbatim>\<open>math::reduce_op(op, n, result, data...)\<close> (the math layer
  is not part of the sources at hand) applies \<open>op\<close> to the running result and the
  elements at the offsets \<open>0, \<dots>, n - 1\<close>, in this order.
\<close>

fun reduce_op_loop :: "('s \<Rightarrow> 'e list \<Rightarrow> 's) \<Rightarrow> nat \<Rightarrow> 's \<Rightarrow> 'e list list \<Rightarrow> 's" where
  "reduce_op_loop op 0 result bufs = result"
| "reduce_op_loop op (Suc n) result bufs =
     op (reduce_op_loop op n result bufs) (map (\<lambda>b. b ! n) bufs)"

text \<open>
  The overload for contiguous tensors of numbers: the reduction runs on \<open>identity\<close>
  itself, a parameter passed by value, which is then returned. The join operation is
  not used.
\<close>

definition tensor_reduce ::
  "('s \<Rightarrow> 'e list \<Rightarrow> 's) \<Rightarrow> 's \<Rightarrow> 'e Tensor \<Rightarrow> 'e Tensor list \<Rightarrow> error + 's" where
  "tensor_reduce reduce_op identity tensor1 tensors =
     bind_result (TA_ASSERT (\<not> empty_pack tensor1 tensors)) (\<lambda>_.
     bind_result (TA_ASSERT (is_range_set_congruent tensor1 tensors)) (\<lambda>_.
       Inr (reduce_op_loop reduce_op (Range_volume (Tensor_range tensor1)) identity
              (map Tensor_data (tensor1 # tensors)))))"

text \<open>
  The overload for contiguous tensors of tensors: every element is a tensor of numbers,
  reduced from \<open>identity\<close> by the overload above and joined to the result. The loop runs
  over the first \<open>n\<close> elements.
\<close>

fun tensor_reduce_tot_loop ::
  "('s \<Rightarrow> 'e list \<Rightarrow> 's) \<Rightarrow> ('s \<Rightarrow> 's \<Rightarrow> 's) \<Rightarrow> 's \<Rightarrow> 'e Tensor list \<Rightarrow> 'e Tensor list list
     \<Rightarrow> nat \<Rightarrow> 's \<Rightarrow> error + 's" where
  "tensor_reduce_tot_loop reduce_op join_op identity data1 datas 0 result = Inr result"
| "tensor_reduce_tot_loop reduce_op join_op identity data1 datas (Suc i) result =
     bind_result (tensor_reduce_tot_loop reduce_op join_op identity data1 datas i result)
       (\<lambda>result.
     bind_result (tensor_reduce reduce_op identity (data1 ! i) (map (\<lambda>d. d ! i) datas))
       (\<lambda>temp. Inr (join_op result temp)))"

definition tensor_reduce_tot ::
  "('s \<Rightarrow> 'e list \<Rightarrow> 's) \<Rightarrow> ('s \<Rightarrow> 's \<Rightarrow> 's) \<Rightarrow> 's \<Rightarrow> 'e Tensor Tensor
     \<Rightarrow> 'e Tensor Tensor list \<Rightarrow> error + 's" where
  "tensor_reduce_tot reduce_op join_op identity tensor1 tensors =
     bind_result (TA_ASSERT (\<not> empty_pack tensor1 tensors)) (\<lambda>_.
     bind_result (TA_ASSERT (is_range_set_congruent tensor1 tensors)) (\<lambda>_.
       tensor_reduce_tot_loop reduce_op join_op identity (Tensor_data tensor1)
         (map Tensor_data tensors) (Range_volume (Tensor_range tensor1)) identity))"

text \<open>
  Modelled from the spec: a tensor that is not contiguous (the tensor views are not part
  of the sources at hand) is a range over a buffer it does not fill: \<open>view_ord i\<close> is
  the offset in the buffer of the element with ordinal \<open>i\<close>, as \<^verbatim>\<open>range().ord(i)\<close>
  gives it. \<^verbatim>\<open>inner_size\<close>, the length of the runs of the pack that are contiguous, is
  a parameter of the kernels.
\<close>

record 'e TensorView =
  view_empty :: bool
  view_range :: Range
  view_data :: "'e list"
  view_ord :: "nat \<Rightarrow> nat"

definition empty_views :: "'e TensorView \<Rightarrow> 'e TensorView list \<Rightarrow> bool" where
  "empty_views tensor1 tensors = (view_empty tensor1 \<or> list_ex view_empty tensors)"

definition views_congruent :: "'e TensorView \<Rightarrow> 'e TensorView list \<Rightarrow> bool" where
  "views_congruent tensor1 tensors =
     list_all (\<lambda>t. view_range t = view_range tensor1) tensors"

text \<open>
  The loop of the two overloads for tensors that are not contiguous, from ordinal \<open>i\<close>
  on: each run of \<open>stride\<close> elements is reduced from \<open>identity\<close> and joined to the
  result. With a stride of zero the loop does not end; \<open>None\<close> is the call that does
  not return.
\<close>

partial_function (option) strided_reduce_loop ::
  "('s \<Rightarrow> 'e list \<Rightarrow> 's) \<Rightarrow> ('s \<Rightarrow> 's \<Rightarrow> 's) \<Rightarrow> 's \<Rightarrow> nat \<Rightarrow> nat \<Rightarrow> 'e TensorView list
     \<Rightarrow> nat \<Rightarrow> 's \<Rightarrow> 's option" where
  "strided_reduce_loop reduce_op join_op identity stride volume views i result =
     (if i < volume then
        strided_reduce_loop reduce_op join_op identity stride volume views (i + stride)
          (join_op result
             (reduce_op_loop reduce_op stride identity
                (map (\<lambda>t. drop (view_ord t i) (view_data t)) views)))
      else Some result)"

text \<open>The overload for tensors of numbers that are not contiguous.\<close>

definition tensor_reduce_noncontiguous ::
  "('e TensorView \<Rightarrow> 'e TensorView list \<Rightarrow> nat) \<Rightarrow> ('s \<Rightarrow> 'e list \<Rightarrow> 's) \<Rightarrow> ('s \<Rightarrow> 's \<Rightarrow> 's)
     \<Rightarrow> 's \<Rightarrow> 'e TensorView \<Rightarrow> 'e TensorView list \<Rightarrow> (error + 's) option" where
  "tensor_reduce_noncontiguous inner_size reduce_op join_op identity tensor1 tensors =
     (case TA_ASSERT (\<not> empty_views tensor1 tensors) of
        Inl e \<Rightarrow> Some (Inl e)
      | Inr _ \<Rightarrow>
     (case TA_ASSERT (views_congruent tensor1 tensors) of
        Inl e \<Rightarrow> Some (Inl e)
      | Inr _ \<Rightarrow>
     (case strided_reduce_loop reduce_op join_op identity (inner_size tensor1 tensors)
              (Range_volume (view_range tensor1)) (tensor1 # tensors) 0 identity of
        None \<Rightarrow> None
      | Some result \<Rightarrow> Some (Inr result))))"

text \<open>
  The overload for tensors of tensors that are not contiguous. Its elements are tensors;
  the wrapper that would reduce an element with the overloads above is built and never
  used, the loop hands \<open>reduce_op\<close> the elements themselves, and what is returned is
  \<open>identity\<close>.
\<close>

definition tensor_reduce_noncontiguous_tot ::
  "('t TensorView \<Rightarrow> 't TensorView list \<Rightarrow> nat) \<Rightarrow> ('s \<Rightarrow> 't list \<Rightarrow> 's) \<Rightarrow> ('s \<Rightarrow> 's \<Rightarrow> 's)
     \<Rightarrow> 's \<Rightarrow> 't TensorView \<Rightarrow> 't TensorView list \<Rightarrow> (error + 's) option" where
  "tensor_reduce_noncontiguous_tot inner_size reduce_op join_op identity tensor1 tensors =
     (case TA_ASSERT (\<not> empty_views tensor1 tensors) of
        Inl e \<Rightarrow> Some (Inl e)
      | Inr _ \<Rightarrow>
     (case TA_ASSERT (views_congruent tensor1 tensors) of
        Inl e \<Rightarrow> Some (Inl e)
      | Inr _ \<Rightarrow>
     (case strided_reduce_loop reduce_op join_op identity (inner_size tensor1 tensors)
              (Range_volume (view_range tensor1)) (tensor1 # tensors) 0 identity of
        None \<Rightarrow> None
      | Some result \<Rightarrow> Some (Inr identity))))"

section \<open>Shape (shape.h)\<close>

text \<open>
  Modelled from the spec: the machine integers of the source (tuple.h and orthotope.h,
  which declare them, are not part of the sources at hand), in the LP64 data model: a
  component of a \<^verbatim>\<open>Tuple\<close> is an \<^verbatim>\<open>int\<close> of 32 bits in two's complement, a
  \<^verbatim>\<open>size_t\<close> has 64 bits. \<open>int32 x\<close> is what an \<^verbatim>\<open>int\<close> holds after an operation
  or a conversion whose exact result is \<open>x\<close>, \<open>size_t x\<close> what a \<^verbatim>\<open>size_t\<close> holds:
  both wrap around. (C++ leaves the overflow of \<^verbatim>\<open>int\<close> undefined; the wrap-around is
  what the usual hardware does.)
\<close>

definition int32 :: "int \<Rightarrow> int" where
  "int32 x = (x + 2 ^ 31) mod 2 ^ 32 - 2 ^ 31"

definition size_t :: "int \<Rightarrow> int" where
  "size_t x = x mod 2 ^ 64"

text \<open>
  Modelled from the spec: \<^verbatim>\<open>Tuple<DIM>\<close>, its arithmetic and the dot product of
  \<^verbatim>\<open>VectorOps\<close> (tuple.h is not part of the sources at hand): a vector of \<open>DIM\<close>
  components of type \<^verbatim>\<open>int\<close>, all zero after default construction, with sum,
  difference and dot product taken component by component in \<^verbatim>\<open>int\<close> arithmetic.
\<close>

type_synonym Tuple = "int list"

definition Tuple_default :: "nat \<Rightarrow> Tuple" where
  "Tuple_default DIM = replicate DIM 0"




text \<open>
  Modelled from the spec: \<^verbatim>\<open>Orthotope<DIM>\<close> (orthotope.h is not part of the sources at
  hand): the box from \<open>low\<close>, included, to \<open>high\<close>, excluded, in every dimension; the
  number of its elements is the product of its extents, a \<^verbatim>\<open>size_t\<close>.
\<close>

record Orthotope =
  low :: Tuple
  high :: Tuple

definition Orthotope_DIM :: "Orthotope \<Rightarrow> nat" where
  "Orthotope_DIM ortho = length (low ortho)"

definition Orthotope_includes :: "Orthotope \<Rightarrow> Tuple \<Rightarrow> bool" where
  "Orthotope_includes ortho c =
     (list_all2 (\<lambda>l x. l \<le> x) (low ortho) c \<and> list_all2 (\<lambda>x h. x < h) c (high ortho))"


text \<open>
  The members of \<^verbatim>\<open>Shape\<close>: the orthotope, the predicate, and the cached linear step.
\<close>

record Shape =
  m_orthotope :: Orthotope
  m_pred :: "Tuple \<Rightarrow> bool"
  m_linear_step :: Tuple

text \<open>
  The loop of \<^verbatim>\<open>init_linear_step_\<close>, with \<^verbatim>\<open>dim\<close> counting down from \<open>DIM - 1\<close> to
  1 (here \<open>Suc d\<close>): the step of dimension \<^verbatim>\<open>dim - 1\<close> is the extent of dimension
  \<^verbatim>\<open>dim\<close> times its step, in \<^verbatim>\<open>int\<close> arithmetic.
\<close>

fun init_linear_step_loop :: "Tuple \<Rightarrow> Tuple \<Rightarrow> nat \<Rightarrow> Tuple \<Rightarrow> Tuple" where
  "init_linear_step_loop h l 0 step = step"
| "init_linear_step_loop h l (Suc d) step =
     init_linear_step_loop h l d
       (step[d := int32 (int32 (h ! Suc d - l ! Suc d) * step ! Suc d)])"

definition init_linear_step :: "Orthotope \<Rightarrow> Tuple" where
  "init_linear_step ortho =
     (let DIM = Orthotope_DIM ortho; h = high ortho; l = low ortho
      in init_linear_step_loop h l (DIM - 1) ((Tuple_default DIM)[DIM - 1 := 1]))"

text \<open>The constructor from an orthotope and a predicate.\<close>

definition Shape_ctor :: "Orthotope \<Rightarrow> (Tuple \<Rightarrow> bool) \<Rightarrow> Shape" where
  "Shape_ctor ortho pred =
     \<lparr> m_orthotope = ortho, m_pred = pred, m_linear_step = init_linear_step ortho \<rparr>"

definition Shape_includes :: "Shape \<Rightarrow> Tuple \<Rightarrow> bool" where
  "Shape_includes s element_index =
     (Orthotope_includes (m_orthotope s) element_index \<and> m_pred s element_index)"






text \<open>
  The extents of an orthotope and the number of its elements as exact integers, for
  the bound under which no operation of the shape wraps around.
\<close>

definition extents :: "Orthotope \<Rightarrow> int list" where
  "extents ortho = map (\<lambda>(h, l). h - l) (zip (high ortho) (low ortho))"

definition volume :: "Orthotope \<Rightarrow> int" where
  "volume ortho = prod_list (extents ortho)"

subsection \<open>The positional system behind the linear step\<close>

text \<open>
  Two list functions for the proofs: the steps of a list of extents (for every dimension
  the product of the extents after it), and the digits of a number for a list of extents,
  most significant first.
\<close>

fun steps :: "int list \<Rightarrow> int list" where
  "steps [] = []"
| "steps (e # es) = prod_list es # steps es"

fun digits :: "int \<Rightarrow> int list \<Rightarrow> int list" where
  "digits k [] = []"
| "digits k (e # es) = (k div prod_list es) # digits (k mod prod_list es) es"

text \<open>The value of a list of digits for a list of extents, an exact integer.\<close>

definition position_value :: "int list \<Rightarrow> int list \<Rightarrow> int" where
  "position_value ds es = sum_list (map (\<lambda>(d, s). d * s) (zip ds (steps es)))"

text \<open>
  The exact offsets of a coordinate from a lower bound, and the exact sums of offsets
  and a lower bound.
\<close>

definition offsets :: "int list \<Rightarrow> int list \<Rightarrow> int list" where
  "offsets c l = map (\<lambda>(x, y). x - y) (zip c l)"

definition shifted :: "int list \<Rightarrow> int list \<Rightarrow> int list" where
  "shifted ds l = map (\<lambda>(x, y). x + y) (zip ds l)"

section \<open>Lemmas on process maps\<close>

lemma ReplicatedPmap_fill_result:
  "ReplicatedPmap_fill p i = Inr (p\<lparr>pmap_local := pmap_local p @ [i..<pmap_size p]\<rparr>)"
proof (induction p i rule: ReplicatedPmap_fill.induct)
  case (1 p i)
  show ?case
  proof (cases "i < pmap_size p")
    case True
    have own: "ReplicatedPmap_owner p i = Inr (pmap_rank p)"
      using True by (simp add: ReplicatedPmap_owner_def TA_ASSERT_def)
    have ok: "TA_ASSERT (pmap_rank p = pmap_rank p) = Inr ()"
      by (simp add: TA_ASSERT_def)
    have step: "ReplicatedPmap_fill p i =
        ReplicatedPmap_fill (p\<lparr>pmap_local := pmap_local p @ [i]\<rparr>) (Suc i)"
      using True own ok by (subst ReplicatedPmap_fill.simps) simp
    have ih: "ReplicatedPmap_fill (p\<lparr>pmap_local := pmap_local p @ [i]\<rparr>) (Suc i) =
        Inr (p\<lparr>pmap_local := (pmap_local p @ [i]) @ [Suc i..<pmap_size p]\<rparr>)"
      using "1.IH" [OF True own ok] by simp
    show ?thesis
      using True step ih by (simp add: upt_conv_Cons)
  next
    case False
    then show ?thesis
      by (subst ReplicatedPmap_fill.simps) simp
  qed
qed

lemma ReplicatedPmap_ctor_result:
  "ReplicatedPmap_ctor world n =
     Inr \<lparr> pmap_rank = world_rank world, pmap_procs = world_size world, pmap_size = n,
           pmap_local = [0..<n], pmap_class = ReplicatedPmap \<rparr>"
  unfolding ReplicatedPmap_ctor_def ReplicatedPmap_fill_result
  by (simp add: Pmap_ctor_def)

section \<open>Lemmas on errors\<close>

lemma bind_result_simps [simp]:
  "bind_result (Inl e) f = Inl e"
  "bind_result (Inr x) f = f x"
  by (simp_all add: bind_result_def)

lemma TA_ASSERT_simps [simp]:
  "TA_ASSERT True = Inr ()"
  "TA_ASSERT False = Inl AssertionFailure"
  by (simp_all add: TA_ASSERT_def)

lemma TA_USER_ASSERT_simps [simp]:
  "TA_USER_ASSERT True msg = Inr ()"
  "TA_USER_ASSERT False msg = Inl (UserError msg)"
  by (simp_all add: TA_USER_ASSERT_def)

lemma check_pimpl_Some [simp]: "pimpl a = Some impl \<Longrightarrow> check_pimpl a = Inr ()"
  by (simp add: check_pimpl_def)

lemma check_pimpl_None [simp]:
  "pimpl a = None \<Longrightarrow> check_pimpl a = Inl (UserError
     ''The Array has not been initialized, likely reason: it was default constructed and used.'')"
  by (simp add: check_pimpl_def)

lemma deref_Some [simp]: "pimpl a = Some impl \<Longrightarrow> deref a = Inr impl"
  by (simp add: deref_def)

lemma deref_None [simp]: "pimpl a = None \<Longrightarrow> deref a = Inl NullDereference"
  by (simp add: deref_def)

section \<open>Deferred cleanup\<close>

lemma run_registered_fresh:
  assumes "uid \<notin> fst ` set (registered st)"
  shows "run_registered uid (st\<lparr>registered := registered st @ [(uid, impl)]\<rparr>) =
         cleanup_callback impl st"
proof -
  have "filter (\<lambda>(k, impl). k = uid) (registered st) = []"
    using assms by (auto simp add: filter_empty_conv image_iff)
  moreover have "(uid, impl) \<notin> set (registered st)"
    using assms by (auto simp add: image_iff)
  ultimately show ?thesis
    by (simp add: remove1_append cleanup_callback_def)
qed

text \<open>
  Claim C2. For an implementation pointer that is not null, with the runtime
  initialised: when \<^verbatim>\<open>lazy_sync\<close> throws (whatever it throws), the deleter returns
  with the counter back at its value before the call, the implementation deleted,
  nothing registered, and one more message on the error stream, which carries the rank
  of the process. When \<^verbatim>\<open>lazy_sync\<close> registers the callback, the counter is one
  higher until the runtime runs the callback, which deletes the implementation and
  brings the counter back. The deleter has no way to end but to return: every
  exception is caught.
\<close>

theorem lazy_deleter_absorbs:
  assumes fresh: "impl_id impl \<notin> fst ` set (registered st)"
  shows "(sync \<noteq> Registers \<longrightarrow>
            cleanup_counter (lazy_deleter True sync (Some impl) st) = cleanup_counter st \<and>
            deleted (lazy_deleter True sync (Some impl) st) = deleted st @ [impl] \<and>
            registered (lazy_deleter True sync (Some impl) st) = registered st \<and>
            (\<exists>kind what. stderr (lazy_deleter True sync (Some impl) st) =
               stderr st @ [Absorbed kind what (world_rank (impl_world impl))])) \<and>
         (sync = Registers \<longrightarrow>
            cleanup_counter (lazy_deleter True sync (Some impl) st) = cleanup_counter st + 1 \<and>
            deleted (lazy_deleter True sync (Some impl) st) = deleted st \<and>
            stderr (lazy_deleter True sync (Some impl) st) = stderr st \<and>
            cleanup_counter (run_registered (impl_id impl) (lazy_deleter True sync (Some impl) st)) =
              cleanup_counter st \<and>
            deleted (run_registered (impl_id impl) (lazy_deleter True sync (Some impl) st)) =
              deleted st @ [impl])"
proof (cases sync)
  case Registers
  define st1 where "st1 = st\<lparr>cleanup_counter := cleanup_counter st + 1\<rparr>"
  have ld: "lazy_deleter True Registers (Some impl) st =
      st1\<lparr>registered := registered st1 @ [(impl_id impl, impl)]\<rparr>"
    by (simp add: lazy_deleter_def Let_def st1_def)
  have "impl_id impl \<notin> fst ` set (registered st1)"
    using fresh by (simp add: st1_def)
  then have run: "run_registered (impl_id impl) (lazy_deleter True Registers (Some impl) st) =
      cleanup_callback impl st1"
    unfolding ld by (rule run_registered_fresh)
  show ?thesis
    unfolding Registers run
    by (simp add: ld cleanup_callback_def) (simp add: st1_def)
next
  case (ThrowsMadness what)
  then show ?thesis
    by (simp add: lazy_deleter_def Let_def absorb_def)
next
  case (ThrowsStd what)
  then show ?thesis
    by (simp add: lazy_deleter_def Let_def absorb_def)
next
  case ThrowsOther
  then show ?thesis
    by (simp add: lazy_deleter_def Let_def absorb_def)
qed

theorem lazy_deleter_absorbs_witness:
  "ThrowsStd ''lazy_sync failed'' \<noteq> Registers \<and>
   cleanup_counter (lazy_deleter True (ThrowsStd ''lazy_sync failed'')
     (Some \<lparr> impl_world = \<lparr>world_rank = 1, world_size = 2\<rparr>,
             impl_trange = \<lparr>tiles_range = [2, 2], elements_range = [4, 4]\<rparr>,
             impl_shape = \<lparr>shape_empty = False, shape_dense = True, shape_range = [2, 2],
                           shape_zero = (\<lambda>i. False)\<rparr>,
             impl_pmap = \<lparr>pmap_rank = 1, pmap_procs = 2, pmap_size = 4, pmap_local = [2, 3],
                          pmap_class = OwnerPmap (\<lambda>i. i div 2)\<rparr>,
             impl_id = 5, impl_tiles = (\<lambda>i. None :: nat option) \<rparr>)
     \<lparr> cleanup_counter = 3, deleted = [], registered = [], stderr = [] \<rparr>) = 3 \<and>
   stderr (lazy_deleter True (ThrowsStd ''lazy_sync failed'')
     (Some \<lparr> impl_world = \<lparr>world_rank = 1, world_size = 2\<rparr>,
             impl_trange = \<lparr>tiles_range = [2, 2], elements_range = [4, 4]\<rparr>,
             impl_shape = \<lparr>shape_empty = False, shape_dense = True, shape_range = [2, 2],
                           shape_zero = (\<lambda>i. False)\<rparr>,
             impl_pmap = \<lparr>pmap_rank = 1, pmap_procs = 2, pmap_size = 4, pmap_local = [2, 3],
                          pmap_class = OwnerPmap (\<lambda>i. i div 2)\<rparr>,
             impl_id = 5, impl_tiles = (\<lambda>i. None :: nat option) \<rparr>)
     \<lparr> cleanup_counter = 3, deleted = [], registered = [], stderr = [] \<rparr>) =
     [Absorbed StdException (Some ''lazy_sync failed'') 1] \<and>
   length (deleted (lazy_deleter True (ThrowsStd ''lazy_sync failed'')
     (Some \<lparr> impl_world = \<lparr>world_rank = 1, world_size = 2\<rparr>,
             impl_trange = \<lparr>tiles_range = [2, 2], elements_range = [4, 4]\<rparr>,
             impl_shape = \<lparr>shape_empty = False, shape_dense = True, shape_range = [2, 2],
                           shape_zero = (\<lambda>i. False)\<rparr>,
             impl_pmap = \<lparr>pmap_rank = 1, pmap_procs = 2, pmap_size = 4, pmap_local = [2, 3],
                          pmap_class = OwnerPmap (\<lambda>i. i div 2)\<rparr>,
             impl_id = 5, impl_tiles = (\<lambda>i. None :: nat option) \<rparr>)
     \<lparr> cleanup_counter = 3, deleted = [], registered = [], stderr = [] \<rparr>)) = 1"
proof -
  let ?impl = "\<lparr> impl_world = \<lparr>world_rank = 1, world_size = 2\<rparr>,
             impl_trange = \<lparr>tiles_range = [2, 2], elements_range = [4, 4]\<rparr>,
             impl_shape = \<lparr>shape_empty = False, shape_dense = True, shape_range = [2, 2],
                           shape_zero = (\<lambda>i. False)\<rparr>,
             impl_pmap = \<lparr>pmap_rank = 1, pmap_procs = 2, pmap_size = 4, pmap_local = [2, 3],
                          pmap_class = OwnerPmap (\<lambda>i. i div 2)\<rparr>,
             impl_id = 5, impl_tiles = (\<lambda>i. None :: nat option) \<rparr>"
  let ?st = "\<lparr> cleanup_counter = 3, deleted = [], registered = [], stderr = [] \<rparr>
    :: nat cleanup_state"
  have fresh: "impl_id ?impl \<notin> fst ` set (registered ?st)"
    by simp
  have msg: "stderr (lazy_deleter True (ThrowsStd ''lazy_sync failed'') (Some ?impl) ?st) =
      [Absorbed StdException (Some ''lazy_sync failed'') 1]"
    by (simp add: lazy_deleter_def absorb_def)
  show ?thesis
    using lazy_deleter_absorbs [OF fresh, of "ThrowsStd ''lazy_sync failed''"] msg
    by simp
qed

section \<open>The array that was default constructed\<close>

text \<open>
  On a default constructed array, every operation that begins with \<^verbatim>\<open>check_pimpl\<close>
  or \<^verbatim>\<open>check_index\<close> ends with the fatal user error "The Array has not been
  initialized": the iterators, \<^verbatim>\<open>find\<close>, \<^verbatim>\<open>set\<close>, \<^verbatim>\<open>init_tiles\<close>,
  \<^verbatim>\<open>fill_local\<close>, \<^verbatim>\<open>fill\<close>, the accessors of the tiled range, the ranges, the
  size, the world, the process map and the density, \<^verbatim>\<open>owner\<close>, \<^verbatim>\<open>is_local\<close>,
  \<^verbatim>\<open>is_zero\<close> and \<^verbatim>\<open>make_replicated\<close>. Two operations need no implementation and
  are answered without an error: \<^verbatim>\<open>is_initialized\<close> returns false, and the call with
  an index string returns a tensor expression over the array, so that the array can be
  the target of an assignment.
\<close>

lemma uninitialized_array_checked_operations:
  "DistArray_begin (DistArray_default :: 't DistArray) = Inl (UserError
     ''The Array has not been initialized, likely reason: it was default constructed and used.'') \<and>
   DistArray_end (DistArray_default :: 't DistArray) = Inl (UserError
     ''The Array has not been initialized, likely reason: it was default constructed and used.'') \<and>
   DistArray_find (DistArray_default :: 't DistArray) i = Inl (UserError
     ''The Array has not been initialized, likely reason: it was default constructed and used.'') \<and>
   DistArray_set (DistArray_default :: 't DistArray) i v = Inl (UserError
     ''The Array has not been initialized, likely reason: it was default constructed and used.'') \<and>
   init_tiles (DistArray_default :: 't DistArray) op skip_set = Inl (UserError
     ''The Array has not been initialized, likely reason: it was default constructed and used.'') \<and>
   fill_local value_type (DistArray_default :: 't DistArray) (x :: 'v) skip_set = Inl (UserError
     ''The Array has not been initialized, likely reason: it was default constructed and used.'') \<and>
   fill value_type (DistArray_default :: 't DistArray) (x :: 'v) skip_set = Inl (UserError
     ''The Array has not been initialized, likely reason: it was default constructed and used.'') \<and>
   DistArray_trange (DistArray_default :: 't DistArray) = Inl (UserError
     ''The Array has not been initialized, likely reason: it was default constructed and used.'') \<and>
   DistArray_range (DistArray_default :: 't DistArray) = Inl (UserError
     ''The Array has not been initialized, likely reason: it was default constructed and used.'') \<and>
   DistArray_elements_range (DistArray_default :: 't DistArray) = Inl (UserError
     ''The Array has not been initialized, likely reason: it was default constructed and used.'') \<and>
   DistArray_elements (DistArray_default :: 't DistArray) = Inl (UserError
     ''The Array has not been initialized, likely reason: it was default constructed and used.'') \<and>
   DistArray_size (DistArray_default :: 't DistArray) = Inl (UserError
     ''The Array has not been initialized, likely reason: it was default constructed and used.'') \<and>
   DistArray_world (DistArray_default :: 't DistArray) = Inl (UserError
     ''The Array has not been initialized, likely reason: it was default constructed and used.'') \<and>
   DistArray_get_world (DistArray_default :: 't DistArray) = Inl (UserError
     ''The Array has not been initialized, likely reason: it was default constructed and used.'') \<and>
   DistArray_pmap (DistArray_default :: 't DistArray) = Inl (UserError
     ''The Array has not been initialized, likely reason: it was default constructed and used.'') \<and>
   DistArray_get_pmap (DistArray_default :: 't DistArray) = Inl (UserError
     ''The Array has not been initialized, likely reason: it was default constructed and used.'') \<and>
   DistArray_is_dense (DistArray_default :: 't DistArray) = Inl (UserError
     ''The Array has not been initialized, likely reason: it was default constructed and used.'') \<and>
   DistArray_owner (DistArray_default :: 't DistArray) i = Inl (UserError
     ''The Array has not been initialized, likely reason: it was default constructed and used.'') \<and>
   DistArray_is_local (DistArray_default :: 't DistArray) i = Inl (UserError
     ''The Array has not been initialized, likely reason: it was default constructed and used.'') \<and>
   DistArray_is_zero (DistArray_default :: 't DistArray) i = Inl (UserError
     ''The Array has not been initialized, likely reason: it was default constructed and used.'') \<and>
   make_replicated default_pmap uid (DistArray_default :: 't DistArray) = Inl (UserError
     ''The Array has not been initialized, likely reason: it was default constructed and used.'') \<and>
   DistArray_is_initialized (DistArray_default :: 't DistArray) = False \<and>
   DistArray_call ndebug default_world (DistArray_default :: 't DistArray) vars =
     ([], Inr \<lparr> expr_array = DistArray_default, expr_vars = vars \<rparr>)"
proof -
  have n: "pimpl (DistArray_default :: 't DistArray) = None"
    by (simp add: DistArray_default_def)
  show ?thesis
    unfolding DistArray_begin_def DistArray_end_def DistArray_find_def DistArray_set_def
      init_tiles_def fill_local_def fill_def DistArray_trange_def DistArray_range_def
      DistArray_elements_range_def DistArray_elements_def DistArray_size_def
      DistArray_world_def DistArray_get_world_def DistArray_pmap_def DistArray_get_pmap_def
      DistArray_is_dense_def DistArray_owner_def DistArray_is_local_def DistArray_is_zero_def
      make_replicated_def DistArray_is_initialized_def DistArray_call_def check_index_def
    by (simp add: n)
qed

text \<open>
  Claim C3 does not hold of the code. The claim names \<^verbatim>\<open>shape()\<close> and \<^verbatim>\<open>id()\<close>
  among the accessors that raise the fatal user error on a default constructed array.
  These two, and \<^verbatim>\<open>get_shape()\<close>, are the accessors that do not call
  \<^verbatim>\<open>check_pimpl\<close>: on a default constructed array they go through the empty pointer,
  which is the dereference the claim says does not happen, where a sibling accessor such
  as \<^verbatim>\<open>is_dense()\<close> or \<^verbatim>\<open>pmap()\<close> raises the user error.
\<close>

theorem uninitialized_array_shape_and_id:
  "DistArray_shape (DistArray_default :: 't DistArray) = Inl NullDereference \<and>
   DistArray_get_shape (DistArray_default :: 't DistArray) = Inl NullDereference \<and>
   DistArray_id (DistArray_default :: 't DistArray) = Inl NullDereference \<and>
   DistArray_is_dense (DistArray_default :: 't DistArray) = Inl (UserError
     ''The Array has not been initialized, likely reason: it was default constructed and used.'') \<and>
   DistArray_pmap (DistArray_default :: 't DistArray) = Inl (UserError
     ''The Array has not been initialized, likely reason: it was default constructed and used.'')"
  by (simp add: DistArray_shape_def DistArray_get_shape_def DistArray_id_def
      DistArray_is_dense_def DistArray_pmap_def DistArray_default_def)

section \<open>Multiplication of tiles\<close>

text \<open>
  Claim C4, as amended. The multiplication operation does not accept a zero tile: with a
  \<^verbatim>\<open>ZeroTensor\<close> as the left or as the right argument, with or without a permutation
  and whatever the consumability flags, the call ends in the fatal assertion that marks
  the arguments as invalid for this operation, and no tile is produced.
\<close>

theorem Mult_rejects_ZeroTensor:
  "Mult_call m (ZeroLeft t) = Inl AssertionFailure \<and>
   Mult_call m (ZeroRight t) = Inl AssertionFailure \<and>
   Mult_call_perm permute m (ZeroLeft t) perm = Inl AssertionFailure \<and>
   Mult_call_perm permute m (ZeroRight t) perm = Inl AssertionFailure"
  by (simp add: Mult_call_def Mult_call_perm_def)

text \<open>
  The claim of C4 as stated is false: multiplying a zero tile with a tile of two
  elements ends in the assertion, not in a zero result.
\<close>

theorem Mult_ZeroTensor_counterexample:
  "Mult_call \<lparr>LeftConsumable = False, RightConsumable = False,
              result_is_left_type = True, result_is_right_type = True\<rparr>
     (ZeroLeft (Tensor [2] [3, 4 :: int])) = Inl AssertionFailure"
  by (simp add: Mult_call_def)

text \<open>
  What the two vector loops compute on buffers that hold at least \<open>n\<close> elements.
\<close>

lemma length_vector_op [simp]: "length (vector_op op n result arg) = length result"
  by (induction n) (simp_all add: Let_def)

lemma nth_vector_op:
  "n \<le> length result \<Longrightarrow> i < length result \<Longrightarrow>
   vector_op op n result arg ! i = (if i < n then op (result ! i) (arg ! i) else result ! i)"
proof (induction n arbitrary: i)
  case 0
  then show ?case by simp
next
  case (Suc n)
  then show ?case
    by (simp add: Let_def nth_list_update less_Suc_eq)
qed

lemma vector_op_whole:
  assumes "length result = n"
  shows "vector_op op n result arg = map (\<lambda>i. op (result ! i) (arg ! i)) [0..<n]"
  using assms by (intro nth_equalityI) (simp_all add: nth_vector_op)

lemma vector_ptr_op_commute:
  fixes d1 d2 :: "('a :: ab_semigroup_mult) list"
  shows "vector_ptr_op (\<lambda>x y. x * y) n d2 d1 = vector_ptr_op (\<lambda>x y. x * y) n d1 d2"
  by (simp add: vector_ptr_op_def mult.commute)

lemma vector_ptr_op_zip:
  assumes "length d1 = n" and "length d2 = n"
  shows "vector_ptr_op op n d1 d2 = map (\<lambda>(x, y). op x y) (zip d1 d2)"
  using assms by (intro nth_equalityI) (simp_all add: vector_ptr_op_def)

text \<open>
  Claim C5. For two tiles that are not empty and have the same range, each with a buffer
  of as many elements as the range has, and with elements whose multiplication is
  commutative, the call operator returns the tile of the products of the elements,
  whatever the two consumability flags (and whether or not the result type is the type of
  an argument): the in-place path through \<^verbatim>\<open>mult_to(first, second)\<close> and the in-place
  path through \<^verbatim>\<open>mult_to(second, first)\<close> give what the out-of-place
  \<^verbatim>\<open>mult(first, second)\<close> gives.
\<close>

theorem Mult_consumability_irrelevant:
  fixes d1 d2 :: "('a :: ab_semigroup_mult) list"
  assumes "first = Tensor r d1" and "second = Tensor r d2"
    and "length d1 = Range_volume r" and "length d2 = Range_volume r"
  shows "Mult_call m (Tiles first second) = Inr (Tensor r (map (\<lambda>(x, y). x * y) (zip d1 d2))) \<and>
         Mult_call m (Tiles first second) = mult first second \<and>
         mult_to first second = mult first second \<and>
         mult_to second first = mult first second"
proof -
  have out: "mult first second = Inr (Tensor r (map (\<lambda>(x, y). x * y) (zip d1 d2)))"
    using assms by (simp add: mult_def vector_ptr_op_zip)
  have "vector_op (\<lambda>x y. x * y) (Range_volume r) d1 d2 =
      vector_ptr_op (\<lambda>x y. x * y) (Range_volume r) d1 d2"
    using assms by (simp add: vector_op_whole vector_ptr_op_def)
  then have left: "mult_to first second = mult first second"
    using assms by (simp add: mult_to_def mult_def)
  have "vector_op (\<lambda>x y. x * y) (Range_volume r) d2 d1 =
      vector_ptr_op (\<lambda>x y. x * y) (Range_volume r) d2 d1"
    using assms by (simp add: vector_op_whole vector_ptr_op_def)
  then have right: "mult_to second first = mult first second"
    using assms by (simp add: mult_to_def mult_def vector_ptr_op_commute)
  have "Mult_call m (Tiles first second) = mult first second"
    using left right by (simp add: Mult_call_def)
  with out left right show ?thesis
    by simp
qed

theorem Mult_consumability_irrelevant_witness:
  "length [1, 2, 3, 4 :: int] = Range_volume [2, 2] \<and>
   length [5, 6, 7, 8 :: int] = Range_volume [2, 2] \<and>
   Mult_call \<lparr>LeftConsumable = False, RightConsumable = True,
              result_is_left_type = True, result_is_right_type = True\<rparr>
     (Tiles (Tensor [2, 2] [1, 2, 3, 4 :: int]) (Tensor [2, 2] [5, 6, 7, 8])) =
     Inr (Tensor [2, 2] [5, 12, 21, 32]) \<and>
   mult_to (Tensor [2, 2] [5, 6, 7, 8]) (Tensor [2, 2] [1, 2, 3, 4 :: int]) =
     Inr (Tensor [2, 2] [5, 12, 21, 32]) \<and>
   mult (Tensor [2, 2] [1, 2, 3, 4 :: int]) (Tensor [2, 2] [5, 6, 7, 8]) =
     Inr (Tensor [2, 2] [5, 12, 21, 32])"
proof -
  have l1: "length [1, 2, 3, 4 :: int] = Range_volume [2, 2]"
    and l2: "length [5, 6, 7, 8 :: int] = Range_volume [2, 2]"
    by (simp_all add: Range_volume_def)
  let ?m = "\<lparr>LeftConsumable = False, RightConsumable = True,
              result_is_left_type = True, result_is_right_type = True\<rparr>"
  let ?first = "Tensor [2, 2] [1, 2, 3, 4 :: int]"
  let ?second = "Tensor [2, 2] [5, 6, 7, 8 :: int]"
  note all = Mult_consumability_irrelevant [OF refl refl l1 l2, of ?m]
  have call: "Mult_call ?m (Tiles ?first ?second) = Inr (Tensor [2, 2] [5, 12, 21, 32])"
    using all [THEN conjunct1] by simp
  have same: "Mult_call ?m (Tiles ?first ?second) = mult ?first ?second"
    using all [THEN conjunct2, THEN conjunct1] .
  have swapped: "mult_to ?second ?first = mult ?first ?second"
    using all [THEN conjunct2, THEN conjunct2, THEN conjunct2] .
  show ?thesis
    using l1 l2 call same swapped by simp
qed

section \<open>Replication\<close>

lemma is_local_replicated:
  assumes "pimpl a = Some impl"
    and "pmap_class (impl_pmap impl) = ReplicatedPmap"
    and "pmap_size (impl_pmap impl) = ArrayImpl_size impl"
    and "i < ArrayImpl_size impl"
  shows "DistArray_is_local a i = Inr True"
  using assms
  by (simp add: DistArray_is_local_def check_index_def Range_includes_def ArrayImpl_range_def
      ArrayImpl_size_def ArrayImpl_is_local_def Pmap_is_local_def ReplicatedPmap_is_local_def)

lemma is_local_single_process:
  assumes "pimpl a = Some impl"
    and "pmap_class (impl_pmap impl) = OwnerPmap f"
    and "pmap_size (impl_pmap impl) = ArrayImpl_size impl"
    and "f i = pmap_rank (impl_pmap impl)"
    and "i < ArrayImpl_size impl"
  shows "DistArray_is_local a i = Inr True"
  using assms
  by (simp add: DistArray_is_local_def check_index_def Range_includes_def ArrayImpl_range_def
      ArrayImpl_size_def ArrayImpl_is_local_def Pmap_is_local_def)

lemma make_replicated_keeps:
  assumes "pimpl a = Some impl"
    and "Pmap_is_replicated (impl_pmap impl) \<or> world_size (impl_world impl) \<le> 1"
  shows "make_replicated dp uid a = Inr a"
  using assms
  by (auto simp add: make_replicated_def DistArray_world_def)

lemma make_replicated_installs:
  assumes a: "pimpl a = Some impl"
    and inv: "impl_invariant impl"
    and "\<not> Pmap_is_replicated (impl_pmap impl)"
    and "world_size (impl_world impl) > 1"
  shows "make_replicated dp uid a =
     Inr (a\<lparr>pimpl := Some \<lparr> impl_world = impl_world impl, impl_trange = impl_trange impl,
        impl_shape = impl_shape impl,
        impl_pmap = \<lparr> pmap_rank = world_rank (impl_world impl),
                      pmap_procs = world_size (impl_world impl),
                      pmap_size = ArrayImpl_size impl,
                      pmap_local = [0..<ArrayImpl_size impl],
                      pmap_class = ReplicatedPmap \<rparr>,
        impl_id = uid, impl_tiles = impl_tiles impl \<rparr>\<rparr>)"
  using assms
  by (simp add: make_replicated_def DistArray_world_def DistArray_size_def DistArray_trange_def
      DistArray_shape_def DistArray_ctor_def init_def ReplicatedPmap_ctor_result
      impl_invariant_def ArrayImpl_size_def DistArray_assign_def)

text \<open>
  Claim C6. For an initialised array whose implementation was built by the constructor
  (on any rank of the world), \<^verbatim>\<open>make_replicated\<close> returns, the array still has
  the same number of tiles, and afterwards \<^verbatim>\<open>is_local(i)\<close> is true for every tile
  index below the size. This holds when the array was replicated already (it is left as
  it is), when the world has one process (it is left as it is, and that process owns
  every tile), and when a replicated process map is installed.
\<close>

theorem make_replicated_all_local:
  assumes a: "pimpl a = Some impl"
    and inv: "impl_invariant impl"
  shows "\<exists>a' impl'. make_replicated default_pmap uid a = Inr a' \<and>
           pimpl a' = Some impl' \<and>
           ArrayImpl_size impl' = ArrayImpl_size impl \<and>
           (\<forall>i < ArrayImpl_size impl. DistArray_is_local a' i = Inr True)"
proof (cases "Pmap_is_replicated (impl_pmap impl) \<or> world_size (impl_world impl) \<le> 1")
  case True
  have keep: "make_replicated default_pmap uid a = Inr a"
    using a True by (rule make_replicated_keeps)
  have sz: "pmap_size (impl_pmap impl) = ArrayImpl_size impl"
    using inv by (simp add: impl_invariant_def ArrayImpl_size_def)
  have "DistArray_is_local a i = Inr True" if i: "i < ArrayImpl_size impl" for i
  proof (cases "pmap_class (impl_pmap impl)")
    case ReplicatedPmap
    with a sz i show ?thesis
      by (simp add: is_local_replicated)
  next
    case (OwnerPmap f)
    then have "world_size (impl_world impl) \<le> 1"
      using True by (simp add: Pmap_is_replicated_def)
    moreover have "\<forall>i < pmap_size (impl_pmap impl). f i < pmap_procs (impl_pmap impl)"
      using inv OwnerPmap by (auto simp add: impl_invariant_def)
    then have "f i < pmap_procs (impl_pmap impl)"
      using i sz by simp
    moreover have "pmap_procs (impl_pmap impl) = world_size (impl_world impl)"
      and "pmap_rank (impl_pmap impl) < world_size (impl_world impl)"
      using inv by (auto simp add: impl_invariant_def)
    ultimately have "f i = pmap_rank (impl_pmap impl)"
      by simp
    with a OwnerPmap sz i show ?thesis
      by (simp add: is_local_single_process)
  qed
  with keep a show ?thesis
    by auto
next
  case False
  let ?impl' = "\<lparr> impl_world = impl_world impl, impl_trange = impl_trange impl,
        impl_shape = impl_shape impl,
        impl_pmap = \<lparr> pmap_rank = world_rank (impl_world impl),
                      pmap_procs = world_size (impl_world impl),
                      pmap_size = ArrayImpl_size impl,
                      pmap_local = [0..<ArrayImpl_size impl],
                      pmap_class = ReplicatedPmap \<rparr>,
        impl_id = uid, impl_tiles = impl_tiles impl \<rparr>"
  have inst: "make_replicated default_pmap uid a = Inr (a\<lparr>pimpl := Some ?impl'\<rparr>)"
    using a inv False by (simp add: make_replicated_installs)
  have sz: "ArrayImpl_size ?impl' = ArrayImpl_size impl"
    by (simp add: ArrayImpl_size_def)
  have "DistArray_is_local (a\<lparr>pimpl := Some ?impl'\<rparr>) i = Inr True"
    if i: "i < ArrayImpl_size impl" for i
    by (rule is_local_replicated [where impl = ?impl']) (simp_all add: sz i)
  with inst sz show ?thesis
    by auto
qed
theorem make_replicated_all_local_witness:
  "impl_invariant
     \<lparr> impl_world = \<lparr>world_rank = 1, world_size = 2\<rparr>,
       impl_trange = \<lparr>tiles_range = [2, 2], elements_range = [4, 4]\<rparr>,
       impl_shape = \<lparr>shape_empty = False, shape_dense = True, shape_range = [2, 2],
                     shape_zero = (\<lambda>i. False)\<rparr>,
       impl_pmap = \<lparr>pmap_rank = 1, pmap_procs = 2, pmap_size = 4, pmap_local = [2, 3],
                    pmap_class = OwnerPmap (\<lambda>i. i div 2)\<rparr>,
       impl_id = 5, impl_tiles = (\<lambda>i. None :: nat option) \<rparr> \<and>
   (\<exists>a'. make_replicated (\<lambda>w n. Pmap_ctor w n (OwnerPmap (\<lambda>i. 0))) 6
       \<lparr> pimpl = Some
         \<lparr> impl_world = \<lparr>world_rank = 1, world_size = 2\<rparr>,
           impl_trange = \<lparr>tiles_range = [2, 2], elements_range = [4, 4]\<rparr>,
           impl_shape = \<lparr>shape_empty = False, shape_dense = True, shape_range = [2, 2],
                         shape_zero = (\<lambda>i. False)\<rparr>,
           impl_pmap = \<lparr>pmap_rank = 1, pmap_procs = 2, pmap_size = 4, pmap_local = [2, 3],
                        pmap_class = OwnerPmap (\<lambda>i. i div 2)\<rparr>,
           impl_id = 5, impl_tiles = (\<lambda>i. None :: nat option) \<rparr> \<rparr> = Inr a' \<and>
      DistArray_is_local a' 0 = Inr True \<and> DistArray_is_local a' 1 = Inr True \<and>
      DistArray_is_local a' 2 = Inr True \<and> DistArray_is_local a' 3 = Inr True)"
proof -
  let ?impl = "\<lparr> impl_world = \<lparr>world_rank = 1, world_size = 2\<rparr>,
       impl_trange = \<lparr>tiles_range = [2, 2], elements_range = [4, 4]\<rparr>,
       impl_shape = \<lparr>shape_empty = False, shape_dense = True, shape_range = [2, 2],
                     shape_zero = (\<lambda>i. False)\<rparr>,
       impl_pmap = \<lparr>pmap_rank = 1, pmap_procs = 2, pmap_size = 4, pmap_local = [2, 3],
                    pmap_class = OwnerPmap (\<lambda>i. i div 2)\<rparr>,
       impl_id = 5, impl_tiles = (\<lambda>i. None :: nat option) \<rparr>"
  have inv: "impl_invariant ?impl"
    by (auto simp add: impl_invariant_def Range_volume_def shape_validate_def)
  have sz: "ArrayImpl_size ?impl = 4"
    by (simp add: ArrayImpl_size_def Range_volume_def)
  have p: "pimpl \<lparr> pimpl = Some ?impl \<rparr> = Some ?impl"
    by simp
  from make_replicated_all_local [OF p inv, of "\<lambda>w n. Pmap_ctor w n (OwnerPmap (\<lambda>i. 0))" 6]
  obtain a' where "make_replicated (\<lambda>w n. Pmap_ctor w n (OwnerPmap (\<lambda>i. 0))) 6
       \<lparr> pimpl = Some ?impl \<rparr> = Inr a'"
    and "\<forall>i < 4. DistArray_is_local a' i = Inr True"
    unfolding sz by blast
  with inv show ?thesis
    by auto
qed

section \<open>Ownership in a replicated process map\<close>

text \<open>
  Claim C7, as amended. The claim that the owner of a tile is the same on every rank
  fails for \<^verbatim>\<open>ReplicatedPmap\<close>, whose \<^verbatim>\<open>owner\<close> returns the rank of the
  calling process: every rank owns every tile. What holds: for two replicated maps of
  the same size over the same number of processes and every tile index below the size,
  each map reports its own rank as the owner and the tile as local, and the two owners
  are equal exactly when the two ranks are.
\<close>

theorem ReplicatedPmap_owner_is_local_rank:
  assumes "ReplicatedPmap_ctor w1 n = Inr p"
    and "ReplicatedPmap_ctor w2 n = Inr q"
    and "world_size w1 = world_size w2"
    and "i < n"
  shows "Pmap_owner p i = Inr (world_rank w1) \<and>
         Pmap_owner q i = Inr (world_rank w2) \<and>
         Pmap_is_local p i = Inr True \<and>
         Pmap_is_local q i = Inr True \<and>
         (Pmap_owner p i = Pmap_owner q i \<longleftrightarrow> world_rank w1 = world_rank w2)"
  using assms
  by (auto simp add: ReplicatedPmap_ctor_result Pmap_owner_def Pmap_is_local_def
      ReplicatedPmap_owner_def ReplicatedPmap_is_local_def)

theorem ReplicatedPmap_owner_is_local_rank_witness:
  "ReplicatedPmap_ctor \<lparr>world_rank = 0, world_size = 2\<rparr> 3 =
     Inr \<lparr>pmap_rank = 0, pmap_procs = 2, pmap_size = 3, pmap_local = [0, 1, 2],
          pmap_class = ReplicatedPmap\<rparr> \<and>
   ReplicatedPmap_ctor \<lparr>world_rank = 1, world_size = 2\<rparr> 3 =
     Inr \<lparr>pmap_rank = 1, pmap_procs = 2, pmap_size = 3, pmap_local = [0, 1, 2],
          pmap_class = ReplicatedPmap\<rparr> \<and>
   Pmap_owner \<lparr>pmap_rank = 0, pmap_procs = 2, pmap_size = 3, pmap_local = [0, 1, 2],
          pmap_class = ReplicatedPmap\<rparr> 2 = Inr 0 \<and>
   Pmap_owner \<lparr>pmap_rank = 1, pmap_procs = 2, pmap_size = 3, pmap_local = [0, 1, 2],
          pmap_class = ReplicatedPmap\<rparr> 2 = Inr 1"
proof -
  let ?w1 = "\<lparr>world_rank = 0, world_size = 2\<rparr>"
  let ?w2 = "\<lparr>world_rank = 1, world_size = 2\<rparr>"
  let ?p = "\<lparr>pmap_rank = 0, pmap_procs = 2, pmap_size = 3, pmap_local = [0, 1, 2],
          pmap_class = ReplicatedPmap\<rparr>"
  let ?q = "\<lparr>pmap_rank = 1, pmap_procs = 2, pmap_size = 3, pmap_local = [0, 1, 2],
          pmap_class = ReplicatedPmap\<rparr>"
  have u: "[0..<3] = [0, 1, 2]"
    by (simp add: upt_conv_Cons)
  have p: "ReplicatedPmap_ctor ?w1 3 = Inr ?p"
    by (simp add: ReplicatedPmap_ctor_result u)
  have q: "ReplicatedPmap_ctor ?w2 3 = Inr ?q"
    by (simp add: ReplicatedPmap_ctor_result u)
  show ?thesis
    using ReplicatedPmap_owner_is_local_rank [OF p q, of 2] p q by simp
qed

text \<open>
  The claim of C7 as stated is false: on two ranks of a world of two processes, the
  replicated maps of three tiles disagree on the owner of tile 2.
\<close>

theorem owner_agreement_counterexample:
  "Pmap_owner \<lparr>pmap_rank = 0, pmap_procs = 2, pmap_size = 3, pmap_local = [0, 1, 2],
          pmap_class = ReplicatedPmap\<rparr> 2 \<noteq>
   Pmap_owner \<lparr>pmap_rank = 1, pmap_procs = 2, pmap_size = 3, pmap_local = [0, 1, 2],
          pmap_class = ReplicatedPmap\<rparr> 2"
  by (simp add: Pmap_owner_def ReplicatedPmap_owner_def)

section \<open>Ordinals and coordinates of a shape\<close>

subsection \<open>Machine arithmetic without overflow\<close>



lemma size_t_id: "0 \<le> x \<Longrightarrow> x < 2 ^ 64 \<Longrightarrow> size_t x = x"
  by (simp add: size_t_def)






subsection \<open>The linear step of the constructor\<close>

lemma length_steps [simp]: "length (steps es) = length es"
  by (induction es) simp_all

lemma length_digits [simp]: "length (digits k es) = length es"
  by (induction es arbitrary: k) simp_all






lemma length_extents [simp]:
  "length (extents ortho) = min (length (high ortho)) (length (low ortho))"
  by (simp add: extents_def)



subsection \<open>Digits and their value\<close>


lemma position_value_Nil [simp]: "position_value [] es = 0"
  by (simp add: position_value_def)

lemma position_value_Cons [simp]:
  "position_value (d # ds) (e # es) = d * prod_list es + position_value ds es"
  by (simp add: position_value_def)





subsection \<open>Offsets of coordinates\<close>


lemma length_offsets [simp]: "length (offsets c l) = min (length c) (length l)"
  by (simp add: offsets_def)

lemma length_shifted [simp]: "length (shifted ds l) = min (length ds) (length l)"
  by (simp add: shifted_def)










subsection \<open>The two conversions\<close>







lemma m_orthotope_Shape_ctor [simp]: "m_orthotope (Shape_ctor ortho pred) = ortho"
  by (simp add: Shape_ctor_def)








section \<open>The number of labels of a tensor expression\<close>

lemma label_count_unat:
  "unat (1 + word_of_nat c :: 32 word) = (1 + c) mod 2 ^ 32"
proof -
  have "(1 + word_of_nat c :: 32 word) = word_of_nat (1 + c)"
    by simp
  then show ?thesis
    by (simp only: unat_of_nat) simp
qed

text \<open>
  Claim C9, as amended. For an initialised array and every index string: in a build
  without \<^verbatim>\<open>NDEBUG\<close>, the call raises the exception exactly when the number of labels
  (one plus the number of commas, as an unsigned 32-bit number) differs from the rank of
  the array, and returns the tensor expression over the array and the string when they
  are equal; in a build with \<^verbatim>\<open>NDEBUG\<close> the check is compiled out and the call
  returns the tensor expression whatever the number of labels. The 32-bit count is the
  number of labels itself for every string with fewer than \<open>2^32 - 1\<close> commas.
\<close>

theorem annotation_count_check:
  assumes a: "pimpl a = Some impl"
  shows "(\<not> ndebug \<longrightarrow>
           (snd (DistArray_call ndebug default_world a vars) =
              Inl (Exception
                ''The number of array annotation variables is not equal to the array dimension.'')
            \<longleftrightarrow> (1 + count_commas vars) mod 2 ^ 32 \<noteq> Range_rank (tiles_range (impl_trange impl))) \<and>
           ((1 + count_commas vars) mod 2 ^ 32 = Range_rank (tiles_range (impl_trange impl)) \<longrightarrow>
              DistArray_call ndebug default_world a vars =
                ([], Inr \<lparr> expr_array = a, expr_vars = vars \<rparr>))) \<and>
         (ndebug \<longrightarrow>
            DistArray_call ndebug default_world a vars =
              ([], Inr \<lparr> expr_array = a, expr_vars = vars \<rparr>)) \<and>
         (count_commas vars < 2 ^ 32 - 1 \<longrightarrow>
            (1 + count_commas vars) mod 2 ^ 32 = 1 + count_commas vars)"
  using a
  by (auto simp add: DistArray_call_def Let_def label_count_unat simp del: unsigned_1 split: if_splits)
theorem annotation_count_check_witness:
  "snd (DistArray_call False \<lparr>world_rank = 0, world_size = 1\<rparr>
      \<lparr> pimpl = Some
         \<lparr> impl_world = \<lparr>world_rank = 0, world_size = 1\<rparr>,
           impl_trange = \<lparr>tiles_range = [2, 2], elements_range = [4, 4]\<rparr>,
           impl_shape = \<lparr>shape_empty = False, shape_dense = True, shape_range = [2, 2],
                         shape_zero = (\<lambda>i. False)\<rparr>,
           impl_pmap = \<lparr>pmap_rank = 0, pmap_procs = 1, pmap_size = 4, pmap_local = [0, 1, 2, 3],
                        pmap_class = OwnerPmap (\<lambda>i. 0)\<rparr>,
           impl_id = 5, impl_tiles = (\<lambda>i. None :: nat option) \<rparr> \<rparr> ''i,j,k'') =
     Inl (Exception
       ''The number of array annotation variables is not equal to the array dimension.'') \<and>
   (1 + count_commas ''i,j,k'') mod 2 ^ 32 = 3 \<and>
   Range_rank [2, 2] = 2"
proof -
  let ?impl = "\<lparr> impl_world = \<lparr>world_rank = 0, world_size = 1\<rparr>,
           impl_trange = \<lparr>tiles_range = [2, 2], elements_range = [4, 4]\<rparr>,
           impl_shape = \<lparr>shape_empty = False, shape_dense = True, shape_range = [2, 2],
                         shape_zero = (\<lambda>i. False)\<rparr>,
           impl_pmap = \<lparr>pmap_rank = 0, pmap_procs = 1, pmap_size = 4, pmap_local = [0, 1, 2, 3],
                        pmap_class = OwnerPmap (\<lambda>i. 0)\<rparr>,
           impl_id = 5, impl_tiles = (\<lambda>i. None :: nat option) \<rparr>"
  have p: "pimpl \<lparr> pimpl = Some ?impl \<rparr> = Some ?impl"
    by simp
  have c: "count_commas ''i,j,k'' = 2"
    by (simp add: count_commas_def)
  show ?thesis
    using annotation_count_check [OF p, of False "\<lparr>world_rank = 0, world_size = 1\<rparr>" "''i,j,k''"]
    by (simp add: c Range_rank_def)
qed

text \<open>
  The claim of C9 as stated is false: in a build with \<^verbatim>\<open>NDEBUG\<close>, an array of rank 2
  called with three labels returns a tensor expression.
\<close>

theorem annotation_count_counterexample:
  "DistArray_call True \<lparr>world_rank = 0, world_size = 1\<rparr>
      \<lparr> pimpl = Some
         \<lparr> impl_world = \<lparr>world_rank = 0, world_size = 1\<rparr>,
           impl_trange = \<lparr>tiles_range = [2, 2], elements_range = [4, 4]\<rparr>,
           impl_shape = \<lparr>shape_empty = False, shape_dense = True, shape_range = [2, 2],
                         shape_zero = (\<lambda>i. False)\<rparr>,
           impl_pmap = \<lparr>pmap_rank = 0, pmap_procs = 1, pmap_size = 4, pmap_local = [0, 1, 2, 3],
                        pmap_class = OwnerPmap (\<lambda>i. 0)\<rparr>,
           impl_id = 5, impl_tiles = (\<lambda>i. None :: nat option) \<rparr> \<rparr> ''i,j,k'' =
     ([], Inr \<lparr> expr_array = \<lparr> pimpl = Some
         \<lparr> impl_world = \<lparr>world_rank = 0, world_size = 1\<rparr>,
           impl_trange = \<lparr>tiles_range = [2, 2], elements_range = [4, 4]\<rparr>,
           impl_shape = \<lparr>shape_empty = False, shape_dense = True, shape_range = [2, 2],
                         shape_zero = (\<lambda>i. False)\<rparr>,
           impl_pmap = \<lparr>pmap_rank = 0, pmap_procs = 1, pmap_size = 4, pmap_local = [0, 1, 2, 3],
                        pmap_class = OwnerPmap (\<lambda>i. 0)\<rparr>,
           impl_id = 5, impl_tiles = (\<lambda>i. None :: nat option) \<rparr> \<rparr>, expr_vars = ''i,j,k'' \<rparr>) \<and>
   1 + count_commas ''i,j,k'' = 3 \<and>
   Range_rank [2, 2] = 2"
  by (simp add: DistArray_call_def count_commas_def Range_rank_def)

section \<open>Reduction of tensors\<close>

text \<open>
  Whenever the overload for tensors of tensors that are not contiguous returns a value,
  the value is the identity it was given.
\<close>

lemma tensor_reduce_noncontiguous_tot_returns_identity:
  assumes "tensor_reduce_noncontiguous_tot inner_size reduce_op join_op identity tensor1 tensors =
             Some (Inr v)"
  shows "v = identity"
  using assms
  by (auto simp add: tensor_reduce_noncontiguous_tot_def split: sum.splits option.splits)

text \<open>
  Claim C10 does not hold of the code. The tensor of tensors with the one element
  \<open>[1, 2]\<close>, reduced with the sum as the element operation and as the join, from the
  identity 0: the overload for contiguous tensors of tensors returns 3, the join of the
  reductions of the elements. The overload for tensors of tensors that are not contiguous,
  given a view of the same buffer and a reduction that sums a whole element, returns the
  identity 0. The overload for tensors of numbers that are not contiguous, on a view of
  the numbers 1 and 2 in a buffer with a gap, returns 3, as the claim says all overloads
  should.
\<close>

theorem tensor_reduce_noncontiguous_tot_failing_input:
  "tensor_reduce_tot (\<lambda>res xs. res + sum_list xs) (\<lambda>a b. a + b) (0 :: int)
     (Tensor [1] [Tensor [2] [1, 2]]) [] = Inr 3 \<and>
   tensor_reduce_noncontiguous_tot (\<lambda>t ts. 1)
     (\<lambda>res xs. res + sum_list (map (\<lambda>t. sum_list (Tensor_data t)) xs)) (\<lambda>a b. a + b) (0 :: int)
     \<lparr>view_empty = False, view_range = [1], view_data = [Tensor [2] [1, 2]],
      view_ord = (\<lambda>i. i)\<rparr> [] = Some (Inr 0) \<and>
   tensor_reduce_noncontiguous (\<lambda>t ts. 1) (\<lambda>res xs. res + sum_list xs) (\<lambda>a b. a + b) (0 :: int)
     \<lparr>view_empty = False, view_range = [2], view_data = [1, 9, 2], view_ord = (\<lambda>i. 2 * i)\<rparr> [] =
     Some (Inr 3)"
proof -
  have contiguous: "tensor_reduce_tot (\<lambda>res xs. res + sum_list xs) (\<lambda>a b. a + b) (0 :: int)
     (Tensor [1] [Tensor [2] [1, 2]]) [] = Inr 3"
    by (simp add: tensor_reduce_tot_def tensor_reduce_def empty_pack_def
        is_range_set_congruent_def Tensor_empty_def Tensor_range_def Tensor_data_def
        Range_volume_def numeral_2_eq_2)
  have views: "tensor_reduce_noncontiguous_tot (\<lambda>t ts. 1)
     (\<lambda>res xs. res + sum_list (map (\<lambda>t. sum_list (Tensor_data t)) xs)) (\<lambda>a b. a + b) (0 :: int)
     \<lparr>view_empty = False, view_range = [1], view_data = [Tensor [2] [1, 2]],
      view_ord = (\<lambda>i. i)\<rparr> [] = Some (Inr 0)"
    by (simp add: tensor_reduce_noncontiguous_tot_def empty_views_def views_congruent_def
        Range_volume_def strided_reduce_loop.simps)
  have numbers: "tensor_reduce_noncontiguous (\<lambda>t ts. 1) (\<lambda>res xs. res + sum_list xs)
     (\<lambda>a b. a + b) (0 :: int)
     \<lparr>view_empty = False, view_range = [2], view_data = [1, 9, 2], view_ord = (\<lambda>i. 2 * i)\<rparr> [] =
     Some (Inr 3)"
    by (simp add: tensor_reduce_noncontiguous_def empty_views_def views_congruent_def
        Range_volume_def strided_reduce_loop.simps)
  from contiguous views numbers show ?thesis
    by simp
qed

end
